theory Spec2Isabelle
  imports Main
begin

section \<open>Values of config.json\<close>

text \<open>
  \<^verbatim>\<open>config\<close> is whatever \<^verbatim>\<open>require('./config.json')\<close> yields, and the code branches on the
  shape of several fields (\<^verbatim>\<open>Array.isArray\<close>, truthiness). The fields are therefore JSON
  values; \<open>JNull\<close> also stands for a field that is absent (\<^verbatim>\<open>undefined\<close>).
  \<open>JNum n\<close> is a number whose value is the integer \<open>n\<close>.
\<close>

datatype jvalue =
    JNull
  | JBool bool
  | JNum int
  | JStr string
  | JArr "jvalue list"
  | JObj "(string \<times> jvalue) list"

text \<open>JavaScript truthiness: an array is truthy even when it is empty.\<close>

fun truthy :: "jvalue \<Rightarrow> bool" where
  "truthy JNull = False"
| "truthy (JBool b) = b"
| "truthy (JNum n) = (n \<noteq> 0)"
| "truthy (JStr s) = (s \<noteq> [])"
| "truthy (JArr xs) = True"
| "truthy (JObj kvs) = True"

record config =
  admins :: jvalue
  handlersRole :: jvalue
  rolesToMention :: jvalue
  ticketCategory :: jvalue
  logChannel :: jvalue
  embedColor :: jvalue
  footerText :: jvalue
  ticketTitle :: jvalue
  ticketMessage :: jvalue
  prefix :: string  \<comment> \<open>the empty string stands for an absent prefix\<close>

text \<open>\<^verbatim>\<open>v || d\<close>.\<close>

definition or_else :: "jvalue \<Rightarrow> jvalue \<Rightarrow> jvalue" where
  "or_else v d = (if truthy v then v else d)"

section \<open>Strings\<close>

text \<open>
  A string is the UTF-8 encoding of the JavaScript string: equality, concatenation,
  \<^verbatim>\<open>startsWith\<close>, the removal of a prefix that is there, and splitting at spaces are the
  same on the bytes as on the code units. \<^verbatim>\<open>toLowerCase\<close> follows the case tables of
  Unicode, which are not part of this repository: it is a function of the environment
  (see \<open>platform\<close> below).
\<close>

definition startsWith :: "string \<Rightarrow> string \<Rightarrow> bool" where
  "startsWith s pre = (take (length pre) s = pre)"

text \<open>
  \<^verbatim>\<open>s.length\<close>, the number of UTF-16 code units: one for every character of one, two or
  three bytes, two for every character of four bytes. A continuation byte lies between
  0x80 and 0xBF, the first byte of a character of four bytes is 0xF0 or above.
\<close>

definition utf16_length :: "string \<Rightarrow> nat" where
  "utf16_length s =
     length (filter (\<lambda>c. \<not> (128 \<le> (of_char c :: nat) \<and> (of_char c :: nat) < 192)) s)
     + length (filter (\<lambda>c. 240 \<le> (of_char c :: nat)) s)"

text \<open>
  White space as \<^verbatim>\<open>trim\<close> and \<^verbatim>\<open>parseInt\<close> skip it (WhiteSpace and LineTerminator of the
  language): TAB, LF, VT, FF, CR and the space, of one byte; U+00A0, of two bytes; U+1680,
  U+2000 to U+200A, U+2028, U+2029, U+202F, U+205F, U+3000 and U+FEFF, of three bytes.
\<close>

definition ws1 :: "char \<Rightarrow> bool" where
  "ws1 a = (a \<in> set [CHR 0x09, CHR 0x0A, CHR 0x0B, CHR 0x0C, CHR 0x0D, CHR 0x20])"

definition ws2 :: "char \<Rightarrow> char \<Rightarrow> bool" where
  "ws2 a b = (a = CHR 0xC2 \<and> b = CHR 0xA0)"

definition ws3 :: "char \<Rightarrow> char \<Rightarrow> char \<Rightarrow> bool" where
  "ws3 a b c =
     ((a = CHR 0xE1 \<and> b = CHR 0x9A \<and> c = CHR 0x80)
      \<or> (a = CHR 0xE2 \<and> b = CHR 0x80 \<and>
          c \<in> set [CHR 0x80, CHR 0x81, CHR 0x82, CHR 0x83, CHR 0x84, CHR 0x85, CHR 0x86, CHR 0x87,
                    CHR 0x88, CHR 0x89, CHR 0x8A, CHR 0xA8, CHR 0xA9, CHR 0xAF])
      \<or> (a = CHR 0xE2 \<and> b = CHR 0x81 \<and> c = CHR 0x9F)
      \<or> (a = CHR 0xE3 \<and> b = CHR 0x80 \<and> c = CHR 0x80)
      \<or> (a = CHR 0xEF \<and> b = CHR 0xBB \<and> c = CHR 0xBF))"

text \<open>The string without its leading white space.\<close>

fun trimStart :: "string \<Rightarrow> string" where
  "trimStart (a # b # c # s) =
     (if ws1 a then trimStart (b # c # s)
      else if ws2 a b then trimStart (c # s)
      else if ws3 a b c then trimStart s
      else a # b # c # s)"
| "trimStart [a, b] = (if ws1 a then trimStart [b] else if ws2 a b then [] else [a, b])"
| "trimStart [a] = (if ws1 a then [] else [a])"
| "trimStart [] = []"

text \<open>The same from the other end, on the reversed string: the last byte comes first.\<close>

fun trimEndRev :: "string \<Rightarrow> string" where
  "trimEndRev (c # b # a # s) =
     (if ws1 c then trimEndRev (b # a # s)
      else if ws2 b c then trimEndRev (a # s)
      else if ws3 a b c then trimEndRev s
      else c # b # a # s)"
| "trimEndRev [c, b] = (if ws1 c then trimEndRev [b] else if ws2 b c then [] else [c, b])"
| "trimEndRev [c] = (if ws1 c then [] else [c])"
| "trimEndRev [] = []"

definition trim :: "string \<Rightarrow> string" where
  "trim s = rev (trimEndRev (rev (trimStart s)))"

text \<open>
  \<^verbatim>\<open>s.split(/ +/)\<close>: a run of spaces is one separator; a separator at either end leaves an
  empty first or last piece; the result is never empty. The flag says that the previous
  character was a space.
\<close>

fun split_from :: "bool \<Rightarrow> string \<Rightarrow> string list" where
  "split_from b [] = [[]]"
| "split_from b (c # cs) =
     (if c = CHR '' '' then (if b then split_from True cs else [] # split_from True cs)
      else (case split_from False cs of [] \<Rightarrow> [[c]] | w # ws \<Rightarrow> (c # w) # ws))"

definition split_spaces :: "string \<Rightarrow> string list" where
  "split_spaces s = split_from False s"

text \<open>\<^verbatim>\<open>Array.prototype.join\<close>.\<close>

fun join :: "string \<Rightarrow> string list \<Rightarrow> string" where
  "join sep [] = []"
| "join sep [x] = x"
| "join sep (x # y # ys) = x @ sep @ join sep (y # ys)"

subsection \<open>Numbers and parseInt\<close>

text \<open>
  The numbers of this program are the integers that are doubles, the two infinities and
  NaN. An integer up to \<open>2^53\<close> in absolute value is a double; a larger one is rounded by the
  run time, which is a function of the environment (\<open>nearest_double\<close> below).
\<close>

datatype number = NaN | Finite int | PosInfinity | NegInfinity

text \<open>\<^verbatim>\<open>Math.min(a, b)\<close>, and \<^verbatim>\<open>a <= b\<close>.\<close>

fun js_min :: "number \<Rightarrow> number \<Rightarrow> number" where
  "js_min NaN b = NaN"
| "js_min a NaN = NaN"
| "js_min NegInfinity b = NegInfinity"
| "js_min a NegInfinity = NegInfinity"
| "js_min PosInfinity b = b"
| "js_min a PosInfinity = a"
| "js_min (Finite x) (Finite y) = Finite (min x y)"

fun js_le :: "number \<Rightarrow> number \<Rightarrow> bool" where
  "js_le NaN b = False"
| "js_le a NaN = False"
| "js_le NegInfinity b = True"
| "js_le a PosInfinity = True"
| "js_le PosInfinity b = False"
| "js_le a NegInfinity = False"
| "js_le (Finite x) (Finite y) = (x \<le> y)"

text \<open>
  The integer that \<^verbatim>\<open>parseInt(s)\<close> with no radix reads: skip leading white space, read a
  sign, switch to base 16 after \<^verbatim>\<open>0x\<close> or \<^verbatim>\<open>0X\<close>, read the longest run of digits of the
  base, ignore the rest. \<open>None\<close> when no digit was read.
\<close>

definition digit_value :: "char \<Rightarrow> nat option" where
  "digit_value c =
     map_of (zip ''0123456789abcdef'' [0, 1, 2, 3, 4, 5, 6, 7, 8, 9, 10, 11, 12, 13, 14, 15]
             @ zip ''ABCDEF'' [10, 11, 12, 13, 14, 15]) c"

definition is_digit_of :: "nat \<Rightarrow> char \<Rightarrow> bool" where
  "is_digit_of radix c = (case digit_value c of Some d \<Rightarrow> d < radix | None \<Rightarrow> False)"

definition digits_value :: "nat \<Rightarrow> string \<Rightarrow> nat" where
  "digits_value radix ds =
     foldl (\<lambda>a c. a * radix + (case digit_value c of Some d \<Rightarrow> d | None \<Rightarrow> 0)) 0 ds"

definition read_sign :: "string \<Rightarrow> bool \<times> string" where
  "read_sign s =
     (case s of
        [] \<Rightarrow> (False, s)
      | c # r \<Rightarrow> if c = CHR ''-'' then (True, r) else if c = CHR ''+'' then (False, r) else (False, s))"

definition read_radix :: "string \<Rightarrow> nat \<times> string" where
  "read_radix s =
     (case s of
        c # x # r \<Rightarrow>
          if c = CHR ''0'' \<and> (x = CHR ''x'' \<or> x = CHR ''X'') then (16, r) else (10, s)
      | _ \<Rightarrow> (10, s))"

definition read_integer :: "string \<Rightarrow> int option" where
  "read_integer s =
     (let (neg, s2) = read_sign (trimStart s);
          (radix, s3) = read_radix s2;
          ds = takeWhile (is_digit_of radix) s3
      in if ds = [] then None
         else Some ((if neg then - 1 else 1) * int (digits_value radix ds)))"

text \<open>
  Round to nearest, ties to even, for an integer: the double that stands for it. It has 53
  significant bits; from \<open>2^1024\<close> on it is an infinity.
\<close>

fun bit_length :: "nat \<Rightarrow> nat" where
  "bit_length n = (if n = 0 then 0 else Suc (bit_length (n div 2)))"

declare bit_length.simps [simp del]

definition to_double :: "int \<Rightarrow> number" where
  "to_double n =
     (let m = nat \<bar>n\<bar>;
          e = bit_length m - 53;
          q = m div 2 ^ e;
          r = m mod 2 ^ e;
          up = (2 ^ e < 2 * r \<or> (2 * r = 2 ^ e \<and> odd q));
          v = (if up then q + 1 else q) * 2 ^ e
      in if 2 ^ 1024 \<le> v then (if n < 0 then NegInfinity else PosInfinity)
         else Finite (if n < 0 then - int v else int v))"

section \<open>Data of the platform\<close>

record user =
  user_id :: string
  username :: string
  tag :: string

datatype permission = ViewChannel | SendMessages

record overwrite =
  ow_id :: jvalue
  ow_allow :: "permission list"
  ow_deny :: "permission list"

datatype channel_type = GuildText | GuildVoice | GuildCategory | GuildAnnouncement | GuildForum

text \<open>The argument of \<^verbatim>\<open>guild.channels.create\<close>.\<close>

record create_opts =
  o_name :: string
  o_type :: channel_type
  o_overwrites :: "overwrite list"
  o_parent :: "jvalue option"

record channel =
  ch_id :: string
  ch_name :: string
  ch_type :: channel_type
  ch_overwrites :: "overwrite list"
  ch_parent :: "jvalue option"

text \<open>
  A category or a forum channel object has no \<^verbatim>\<open>send\<close> method: calling it is a
  synchronous TypeError, not a rejected promise.
\<close>

definition has_send :: "channel \<Rightarrow> bool" where
  "has_send c = (ch_type c \<noteq> GuildCategory \<and> ch_type c \<noteq> GuildForum)"

record message =
  createdTimestamp :: int
  author_tag :: string
  content :: string

text \<open>The texts sent to an interaction, by the line of index.js that builds them.\<close>

datatype notice =
    DeniedSetup  \<comment> \<open>line 144\<close>
  | PanelCreated  \<comment> \<open>line 168\<close>
  | DeniedVerify  \<comment> \<open>line 174\<close>
  | VerifyPanelCreated  \<comment> \<open>line 181\<close>
  | ClosingNotice  \<comment> \<open>line 220, "the ticket will be closed in 5 seconds"\<close>
  | GenericError  \<comment> \<open>line 251\<close>
  | TicketExists string  \<comment> \<open>line 266, with the mention of the existing channel\<close>
  | TicketCreated string  \<comment> \<open>line 317, with the mention of the new channel\<close>
  | TicketError  \<comment> \<open>lines 321 and 323\<close>

text \<open>The messages sent to a channel or in reply to a message.\<close>

datatype body =
    TicketPanel  \<comment> \<open>line 169\<close>
  | VerifyPanel  \<comment> \<open>line 182\<close>
  | Transcript string string string  \<comment> \<open>line 233: channel name, tag of the closer, file\<close>
  | Intro string string  \<comment> \<open>line 308: content, reason shown in the embed; with the close button\<close>
  | NewTicketLog string string  \<comment> \<open>line 313: tag of the requester, mention of the channel\<close>
  | Cleared number  \<comment> \<open>line 343, with the amount\<close>
  | MentionSomeone  \<comment> \<open>lines 349 and 356\<close>
  | BanFailed  \<comment> \<open>line 350\<close>
  | Banned  \<comment> \<open>line 351\<close>
  | KickFailed  \<comment> \<open>line 357\<close>
  | Kicked  \<comment> \<open>line 358\<close>

text \<open>Every request the handlers make to the platform or to the file system.\<close>

datatype call =
    DeferReply
  | Reply notice
  | EditReply notice
  | CreateChannel create_opts
  | ChannelSend string body  \<comment> \<open>id of the channel\<close>
  | FetchMessages string nat  \<comment> \<open>id of the channel, limit\<close>
  | WriteFile string string
  | UnlinkFile string
  | DeleteChannel string
  | BulkDelete string number
  | MessageReply body
  | Ban string string  \<comment> \<open>member, tag of the moderator in the reason\<close>
  | Kick string
  | DeleteMessage

datatype outcome = Succeeds | Fails

text \<open>
  The environment. \<open>outcome_of\<close> decides, from the requests made so far and the request
  being made, whether it succeeds: any pattern of failures is some \<open>outcome_of\<close>.
  A failed platform request is a rejected promise; a failed file operation throws.
  \<open>fresh_id\<close> is the id the platform gives the next channel, \<open>recent\<close> the messages of a
  channel, newest first. The rest is the run time and the library:
  \<open>toISOString\<close> renders a time stamp (\<^verbatim>\<open>new Date(t).toISOString()\<close>);
  \<open>toLowerCase\<close> is \<^verbatim>\<open>String.prototype.toLowerCase\<close>;
  \<open>nearest_double\<close> is the number that \<^verbatim>\<open>parseInt\<close> returns for an integer beyond \<open>2^53\<close>
  (the language leaves it to the implementation for long digit strings);
  \<open>numberToString\<close> renders a number inside a template literal;
  \<open>resolveColor\<close> says whether the library accepts a value as the colour of an embed
  (its table of colour names is not part of this repository).
\<close>

record platform =
  outcome_of :: "call list \<Rightarrow> call \<Rightarrow> outcome"
  fresh_id :: "channel list \<Rightarrow> string"
  recent :: "string \<Rightarrow> message list"
  toISOString :: "int \<Rightarrow> string"
  toLowerCase :: "string \<Rightarrow> string"
  nearest_double :: "int \<Rightarrow> number"
  numberToString :: "int \<Rightarrow> string"
  resolveColor :: "jvalue \<Rightarrow> bool"

text \<open>\<^verbatim>\<open>parseInt(s)\<close>.\<close>

definition parseInt :: "platform \<Rightarrow> string \<Rightarrow> number" where
  "parseInt p s =
     (case read_integer s of
        None \<Rightarrow> NaN
      | Some n \<Rightarrow> if \<bar>n\<bar> \<le> 2 ^ 53 then Finite n else nearest_double p n)"

datatype task =
    CloseTask channel string  \<comment> \<open>the callback of line 221: the channel, the tag of the closer\<close>
  | DeleteConfirmation  \<comment> \<open>the callback of line 344\<close>

text \<open>
  The state the handlers read and change: the guild's channel cache, the two flags of the
  interaction being handled, the requests made so far, the lines written to the console,
  the pending timers (delay in milliseconds), and the number of promises that were
  rejected with nobody awaiting them.
\<close>

record world =
  cache :: "channel list"
  replied :: bool
  deferred :: bool
  trace :: "call list"
  console :: "string list"
  timers :: "(nat \<times> task) list"
  unhandled :: nat

text \<open>How the promise of an async function settles.\<close>

datatype settled = Resolved | Rejected

record interaction =
  i_user :: user
  i_guild_id :: string
  i_channel :: channel
  has_manage :: bool  \<comment> \<open>\<^verbatim>\<open>memberPermissions?.has(ManageGuild)\<close>, false without permissions\<close>

record incoming =
  in_guild :: bool
  author_id :: string
  sender_tag :: string
  author_bot :: bool
  m_content :: string
  m_channel :: string
  member_manage :: bool  \<comment> \<open>\<^verbatim>\<open>message.member.permissions.has(ManageGuild)\<close>\<close>
  mentioned :: "string list"  \<comment> \<open>\<^verbatim>\<open>message.mentions.members\<close>\<close>

section \<open>Utilities (lines 75 to 87)\<close>

definition isAdmin :: "config \<Rightarrow> string \<Rightarrow> bool" where
  "isAdmin conf uid = (case admins conf of JArr xs \<Rightarrow> JStr uid \<in> set xs | _ \<Rightarrow> False)"

text \<open>The gate as line 338 writes it, and the refusal as lines 143 and 173 write it.\<close>

definition allow :: "config \<Rightarrow> string \<Rightarrow> bool \<Rightarrow> bool" where
  "allow conf uid manage = (isAdmin conf uid \<or> manage)"

definition refused :: "config \<Rightarrow> bool \<Rightarrow> string \<Rightarrow> bool" where
  "refused conf manage uid = (\<not> manage \<and> \<not> isAdmin conf uid)"

text \<open>The configured admin allow-list, in the words of the specification: the identities listed.\<close>

definition admin_list :: "config \<Rightarrow> string list" where
  "admin_list conf =
     (case admins conf of JArr xs \<Rightarrow> concat (map (\<lambda>v. case v of JStr s \<Rightarrow> [s] | _ \<Rightarrow> []) xs) | _ \<Rightarrow> [])"

text \<open>A request: it is appended to the trace and the environment decides its outcome.\<close>

definition invoke :: "platform \<Rightarrow> call \<Rightarrow> world \<Rightarrow> bool \<times> world" where
  "invoke p c w = (outcome_of p (trace w) c = Succeeds, w\<lparr>trace := trace w @ [c]\<rparr>)"

text \<open>
  The three methods of an interaction, as the library has them: \<^verbatim>\<open>deferReply\<close> and
  \<^verbatim>\<open>reply\<close> reject without a request when the interaction is already acknowledged,
  \<^verbatim>\<open>editReply\<close> rejects without a request when it is not; the flag is set when the request
  has succeeded. The boolean says that the promise was fulfilled.
\<close>

definition deferReply :: "platform \<Rightarrow> world \<Rightarrow> bool \<times> world" where
  "deferReply p w =
     (if deferred w \<or> replied w then (False, w)
      else case invoke p DeferReply w of
             (True, w1) \<Rightarrow> (True, w1\<lparr>deferred := True\<rparr>)
           | (False, w1) \<Rightarrow> (False, w1))"

definition reply :: "platform \<Rightarrow> notice \<Rightarrow> world \<Rightarrow> bool \<times> world" where
  "reply p n w =
     (if deferred w \<or> replied w then (False, w)
      else case invoke p (Reply n) w of
             (True, w1) \<Rightarrow> (True, w1\<lparr>replied := True\<rparr>)
           | (False, w1) \<Rightarrow> (False, w1))"

definition editReply :: "platform \<Rightarrow> notice \<Rightarrow> world \<Rightarrow> bool \<times> world" where
  "editReply p n w =
     (if \<not> deferred w \<and> \<not> replied w then (False, w)
      else case invoke p (EditReply n) w of
             (True, w1) \<Rightarrow> (True, w1\<lparr>replied := True\<rparr>)
           | (False, w1) \<Rightarrow> (False, w1))"

text \<open>\<^verbatim>\<open>return promise\<close> in an async function: the function settles as the promise does.\<close>

definition returned :: "bool \<times> world \<Rightarrow> settled \<times> world" where
  "returned r = (if fst r then Resolved else Rejected, snd r)"

text \<open>A promise nobody awaits: its rejection is only counted.\<close>

definition floating :: "bool \<times> world \<Rightarrow> world" where
  "floating r = (if fst r then snd r else (snd r)\<lparr>unhandled := unhandled (snd r) + 1\<rparr>)"

text \<open>Line 80. Both branches swallow the failure.\<close>

definition safeReply :: "platform \<Rightarrow> notice \<Rightarrow> world \<Rightarrow> world" where
  "safeReply p options w =
     (if replied w \<or> deferred w then snd (editReply p options w)
      else snd (reply p options w))"

text \<open>\<^verbatim>\<open>guild.channels.cache.get(key)\<close>: only a string can be the id of a channel.\<close>

definition cache_get :: "channel list \<Rightarrow> jvalue \<Rightarrow> channel option" where
  "cache_get cs key = (case key of JStr s \<Rightarrow> find (\<lambda>c. ch_id c = s) cs | _ \<Rightarrow> None)"

section \<open>createTicket (lines 257 to 326)\<close>

definition grant :: "jvalue \<Rightarrow> overwrite" where
  "grant rid = \<lparr>ow_id = rid, ow_allow = [ViewChannel, SendMessages], ow_deny = []\<rparr>"

text \<open>Lines 281 to 287: a non-empty array gives one entry per element, any other truthy value one entry.\<close>

definition handler_overwrites :: "config \<Rightarrow> overwrite list" where
  "handler_overwrites conf =
     (case handlersRole conf of
        JArr (r # rs) \<Rightarrow> map grant (r # rs)
      | v \<Rightarrow> if truthy v then [grant v] else [])"

definition ticket_opts :: "config \<Rightarrow> platform \<Rightarrow> interaction \<Rightarrow> create_opts" where
  "ticket_opts conf p ia =
     \<lparr>o_name = toLowerCase p (''ticket-'' @ username (i_user ia)),
      o_type = GuildText,
      o_overwrites =
        [\<lparr>ow_id = JStr (i_guild_id ia), ow_allow = [], ow_deny = [ViewChannel]\<rparr>,
         \<lparr>ow_id = JStr (user_id (i_user ia)), ow_allow = [ViewChannel, SendMessages], ow_deny = []\<rparr>]
        @ handler_overwrites conf,
      o_parent = (if truthy (ticketCategory conf) then Some (ticketCategory conf) else None)\<rparr>"

text \<open>
  \<^verbatim>\<open>guild.channels.create(opts)\<close>: on success the platform's channel has the requested
  name, type, overwrites and parent, and the library adds it to the cache.
\<close>

definition create :: "platform \<Rightarrow> create_opts \<Rightarrow> world \<Rightarrow> channel option \<times> world" where
  "create p opts w =
     (case invoke p (CreateChannel opts) w of
        (True, w1) \<Rightarrow>
          (let ch = \<lparr>ch_id = fresh_id p (cache w), ch_name = o_name opts, ch_type = o_type opts,
                     ch_overwrites = o_overwrites opts, ch_parent = o_parent opts\<rparr>
           in (Some ch, w1\<lparr>cache := cache w1 @ [ch]\<rparr>))
      | (False, w1) \<Rightarrow> (None, w1))"

subsection \<open>The embeds\<close>

text \<open>
  The builders of the library check what they are given and throw otherwise: a title is
  a string of 1 to 256 code units, a description one of 1 to 4096, the text of a footer
  one of 1 to 2048, and the colour must resolve. The two arguments with a default:
\<close>

definition text_ok :: "nat \<Rightarrow> nat \<Rightarrow> jvalue \<Rightarrow> bool" where
  "text_ok lo hi v =
     (case v of JStr s \<Rightarrow> lo \<le> utf16_length s \<and> utf16_length s \<le> hi | _ \<Rightarrow> False)"

definition color_arg :: "config \<Rightarrow> jvalue" where
  "color_arg conf = or_else (embedColor conf) (JStr ''#2b2d31'')"

definition footer_arg :: "config \<Rightarrow> jvalue" where
  "footer_arg conf = or_else (footerText conf) (JStr [])"

text \<open>
  Lines 291 to 296 build without throwing: the title is a literal of 10 code units; the
  description is a literal of 13, the mention of the requester, a literal of 12 and the
  reason; then the colour and the footer.
\<close>

definition ticket_embed_built :: "config \<Rightarrow> platform \<Rightarrow> user \<Rightarrow> string \<Rightarrow> bool" where
  "ticket_embed_built conf p u reason =
     (25 + utf16_length (''<@'' @ user_id u @ ''>'') + utf16_length reason \<le> 4096
      \<and> resolveColor p (color_arg conf)
      \<and> text_ok 1 2048 (footer_arg conf))"

text \<open>
  Lines 148 to 152: the title and the description are configured or a literal (of 15 and
  of 40 code units). Line 177: two literals and the colour.
\<close>

definition panel_embed_built :: "config \<Rightarrow> platform \<Rightarrow> bool" where
  "panel_embed_built conf p =
     ((if truthy (ticketTitle conf) then text_ok 1 256 (ticketTitle conf) else True)
      \<and> (if truthy (ticketMessage conf) then text_ok 1 4096 (ticketMessage conf) else True)
      \<and> resolveColor p (color_arg conf)
      \<and> text_ok 1 2048 (footer_arg conf))"

definition verify_embed_built :: "config \<Rightarrow> platform \<Rightarrow> bool" where
  "verify_embed_built conf p = resolveColor p (color_arg conf)"

text \<open>A value inside a template literal.\<close>

fun js_string :: "platform \<Rightarrow> jvalue \<Rightarrow> string" where
  "js_string p JNull = ''null''"
| "js_string p (JBool b) = (if b then ''true'' else ''false'')"
| "js_string p (JNum n) = numberToString p n"
| "js_string p (JStr s) = s"
| "js_string p (JArr xs) =
     join '','' (map (\<lambda>v. case v of JNull \<Rightarrow> [] | _ \<Rightarrow> js_string p v) xs)"
| "js_string p (JObj kvs) = ''[object Object]''"

text \<open>Lines 303 to 306.\<close>

definition intro_content :: "config \<Rightarrow> platform \<Rightarrow> user \<Rightarrow> string" where
  "intro_content conf p u =
     ''<@'' @ user_id u @ ''>'' @
     (case rolesToMention conf of
        JArr (r # rs) \<Rightarrow> '' '' @ join '' '' (map (\<lambda>v. ''<@&'' @ js_string p v @ ''>'') (r # rs))
      | _ \<Rightarrow> [])"

text \<open>
  Lines 311 to 314. The send is not awaited: a rejection is nobody's, and only the
  TypeError of a channel without \<^verbatim>\<open>send\<close> is thrown here (the result \<open>False\<close>).
\<close>

definition log_new_ticket :: "config \<Rightarrow> platform \<Rightarrow> user \<Rightarrow> channel \<Rightarrow> world \<Rightarrow> bool \<times> world" where
  "log_new_ticket conf p u ch w =
     (if truthy (logChannel conf) then
        (case cache_get (cache w) (logChannel conf) of
           None \<Rightarrow> (True, w)
         | Some lc \<Rightarrow>
             if has_send lc
             then (True, floating (invoke p (ChannelSend (ch_id lc) (NewTicketLog (tag u) (ch_id ch))) w))
             else (False, w))
      else (True, w))"

text \<open>The test of line 263 for the requester \<open>u\<close>.\<close>

definition ticket_of :: "platform \<Rightarrow> user \<Rightarrow> channel \<Rightarrow> bool" where
  "ticket_of p u c = (toLowerCase p (ch_name c) = ''ticket-'' @ toLowerCase p (username u))"

text \<open>Lines 318 to 325.\<close>

definition createTicket_catch :: "platform \<Rightarrow> world \<Rightarrow> settled \<times> world" where
  "createTicket_catch p w =
     (let w1 = w\<lparr>console := console w @ [''createTicket error:'']\<rparr>
      in if \<not> replied w1 \<and> \<not> deferred w1 then returned (reply p TicketError w1)
         else returned (editReply p TicketError w1))"

definition createTicket :: "config \<Rightarrow> platform \<Rightarrow> interaction \<Rightarrow> string \<Rightarrow> world \<Rightarrow> settled \<times> world" where
  "createTicket conf p ia ttype w =
     (let u = i_user ia in
      case find (ticket_of p u) (cache w) of
        Some existing \<Rightarrow> returned (editReply p (TicketExists (ch_id existing)) w)
      | None \<Rightarrow>
          (case create p (ticket_opts conf p ia) w of
             (None, w1) \<Rightarrow> createTicket_catch p w1
           | (Some ch, w1) \<Rightarrow>
               if \<not> ticket_embed_built conf p u ttype then createTicket_catch p w1
               else
                 (case invoke p (ChannelSend (ch_id ch) (Intro (intro_content conf p u) ttype)) w1 of
                    (False, w2) \<Rightarrow> createTicket_catch p w2
                  | (True, w2) \<Rightarrow>
                      (case log_new_ticket conf p u ch w2 of
                         (False, w3) \<Rightarrow> createTicket_catch p w3
                       | (True, w3) \<Rightarrow> returned (editReply p (TicketCreated (ch_id ch)) w3)))))"

section \<open>The interaction handler (lines 125 to 254)\<close>

text \<open>Lines 248 to 253: the catch of the whole handler.\<close>

definition handler_catch :: "platform \<Rightarrow> world \<Rightarrow> settled \<times> world" where
  "handler_catch p w =
     (let w1 = w\<lparr>console := console w @ [''Interaction handler error:'']\<rparr>
      in if \<not> replied w1 \<and> \<not> deferred w1 then (Resolved, snd (reply p GenericError w1))
         else (Resolved, w1))"

text \<open>Lines 141 to 170. The embed is built after the gate and before the reply.\<close>

definition on_setup_ticket :: "config \<Rightarrow> platform \<Rightarrow> interaction \<Rightarrow> world \<Rightarrow> settled \<times> world" where
  "on_setup_ticket conf p ia w =
     (if refused conf (has_manage ia) (user_id (i_user ia)) then
        (case reply p DeniedSetup w of
           (True, w1) \<Rightarrow> (Resolved, w1)
         | (False, w1) \<Rightarrow> handler_catch p w1)
      else if \<not> panel_embed_built conf p then handler_catch p w
      else
        (case reply p PanelCreated w of
           (True, w1) \<Rightarrow> returned (invoke p (ChannelSend (ch_id (i_channel ia)) TicketPanel) w1)
         | (False, w1) \<Rightarrow> handler_catch p w1))"

text \<open>Lines 172 to 183.\<close>

definition on_verify_setup :: "config \<Rightarrow> platform \<Rightarrow> interaction \<Rightarrow> world \<Rightarrow> settled \<times> world" where
  "on_verify_setup conf p ia w =
     (if refused conf (has_manage ia) (user_id (i_user ia)) then
        (case reply p DeniedVerify w of
           (True, w1) \<Rightarrow> (Resolved, w1)
         | (False, w1) \<Rightarrow> handler_catch p w1)
      else if \<not> verify_embed_built conf p then handler_catch p w
      else
        (case reply p VerifyPanelCreated w of
           (True, w1) \<Rightarrow> returned (invoke p (ChannelSend (ch_id (i_channel ia)) VerifyPanel) w1)
         | (False, w1) \<Rightarrow> handler_catch p w1))"

text \<open>Lines 187 to 193: a selection in the ticket menu; the reason is the selected value.\<close>

definition on_ticket_menu :: "config \<Rightarrow> platform \<Rightarrow> interaction \<Rightarrow> string \<Rightarrow> world \<Rightarrow> settled \<times> world" where
  "on_ticket_menu conf p ia selected w =
     (case deferReply p w of
        (True, w1) \<Rightarrow> createTicket conf p ia selected w1
      | (False, w1) \<Rightarrow> handler_catch p w1)"

text \<open>Lines 211 to 214: the open-ticket button.\<close>

definition on_ticket_button :: "config \<Rightarrow> platform \<Rightarrow> interaction \<Rightarrow> world \<Rightarrow> settled \<times> world" where
  "on_ticket_button conf p ia w =
     (case deferReply p w of
        (True, w1) \<Rightarrow> createTicket conf p ia ''general'' w1
      | (False, w1) \<Rightarrow> handler_catch p w1)"

text \<open>Lines 217 to 246: the close button. The notice's failure is swallowed; the timer is set.\<close>

definition on_close_ticket :: "platform \<Rightarrow> interaction \<Rightarrow> world \<Rightarrow> settled \<times> world" where
  "on_close_ticket p ia w =
     (case deferReply p w of
        (True, w1) \<Rightarrow>
          (let w2 = snd (editReply p ClosingNotice w1)
           in (Resolved, w2\<lparr>timers := timers w2 @ [(5000, CloseTask (i_channel ia) (tag (i_user ia)))]\<rparr>))
      | (False, w1) \<Rightarrow> handler_catch p w1)"

subsection \<open>The callback of the timer (lines 221 to 244)\<close>

text \<open>Line 225.\<close>

definition format_line :: "platform \<Rightarrow> message \<Rightarrow> string" where
  "format_line p m =
     ''['' @ toISOString p (createdTimestamp m) @ ''] '' @ author_tag m @ '': '' @
     (if content m = [] then ''[embed/attachment]'' else content m)"

definition transcript :: "platform \<Rightarrow> message list \<Rightarrow> string" where
  "transcript p msgs = join [CHR 0x0A] (rev (map (format_line p) msgs))"

text \<open>\<^verbatim>\<open>ch.messages.fetch({ limit: 100 })\<close>: at most 100 messages, the newest first.\<close>

definition fetch :: "platform \<Rightarrow> channel \<Rightarrow> world \<Rightarrow> message list option \<times> world" where
  "fetch p ch w =
     (case invoke p (FetchMessages (ch_id ch) 100) w of
        (True, w1) \<Rightarrow> (Some (take 100 (recent p (ch_id ch))), w1)
      | (False, w1) \<Rightarrow> (None, w1))"

text \<open>
  \<^verbatim>\<open>await ch.delete().catch(() => {})\<close>: a failure is swallowed; on success the library
  drops the channel from the cache.
\<close>

definition delete_quietly :: "platform \<Rightarrow> channel \<Rightarrow> world \<Rightarrow> world" where
  "delete_quietly p ch w =
     (case invoke p (DeleteChannel (ch_id ch)) w of
        (True, w1) \<Rightarrow> w1\<lparr>cache := filter (\<lambda>c. ch_id c \<noteq> ch_id ch) (cache w1)\<rparr>
      | (False, w1) \<Rightarrow> w1)"

text \<open>
  Lines 230 to 235. A rejected send is swallowed; \<open>False\<close> is the TypeError of a log
  channel without \<^verbatim>\<open>send\<close>.
\<close>

definition forward :: "config \<Rightarrow> platform \<Rightarrow> channel \<Rightarrow> string \<Rightarrow> string \<Rightarrow> world \<Rightarrow> bool \<times> world" where
  "forward conf p ch closer filename w =
     (if truthy (logChannel conf) then
        (case cache_get (cache w) (logChannel conf) of
           None \<Rightarrow> (True, w)
         | Some lc \<Rightarrow>
             if has_send lc
             then (True, snd (invoke p (ChannelSend (ch_id lc) (Transcript (ch_name ch) closer filename)) w))
             else (False, w))
      else (True, w))"

definition close_timer :: "config \<Rightarrow> platform \<Rightarrow> channel \<Rightarrow> string \<Rightarrow> world \<Rightarrow> settled \<times> world" where
  "close_timer conf p ch closer w =
     (case fetch p ch w of
        (None, w1) \<Rightarrow> (Resolved, delete_quietly p ch w1)
      | (Some msgs, w1) \<Rightarrow>
          (let lines = transcript p msgs;
               filename = ''transcript-'' @ ch_id ch @ ''.txt''
           in case invoke p (WriteFile filename lines) w1 of
                (False, w2) \<Rightarrow> (Resolved, delete_quietly p ch w2)
              | (True, w2) \<Rightarrow>
                  (case forward conf p ch closer filename w2 of
                     (False, w3) \<Rightarrow> (Resolved, delete_quietly p ch w3)
                   | (True, w3) \<Rightarrow>
                       (let w4 = delete_quietly p ch w3
                        in case invoke p (UnlinkFile filename) w4 of
                             (True, w5) \<Rightarrow> (Resolved, w5)
                           | (False, w5) \<Rightarrow> (Resolved, delete_quietly p ch w5)))))"

text \<open>The runtime fires a pending timer: the first one, which leaves the list.\<close>

definition run_task :: "config \<Rightarrow> platform \<Rightarrow> task \<Rightarrow> world \<Rightarrow> settled \<times> world" where
  "run_task conf p t w =
     (case t of
        CloseTask ch closer \<Rightarrow> close_timer conf p ch closer w
      | DeleteConfirmation \<Rightarrow> (Resolved, snd (invoke p DeleteMessage w)))"

definition fire :: "config \<Rightarrow> platform \<Rightarrow> world \<Rightarrow> settled \<times> world" where
  "fire conf p w =
     (case timers w of
        [] \<Rightarrow> (Resolved, w)
      | (delay, t) # rest \<Rightarrow> run_task conf p t (w\<lparr>timers := rest\<rparr>))"

section \<open>The prefix commands (lines 329 to 360)\<close>

text \<open>Line 341: \<^verbatim>\<open>parseInt(args[0]) || 5\<close>; NaN and 0 are falsy, and so is a missing argument.\<close>

definition clear_amount :: "platform \<Rightarrow> string list \<Rightarrow> number" where
  "clear_amount p args =
     (case (case args of [] \<Rightarrow> NaN | a # rest \<Rightarrow> parseInt p a) of
        NaN \<Rightarrow> Finite 5
      | Finite n \<Rightarrow> if n = 0 then Finite 5 else Finite n
      | PosInfinity \<Rightarrow> PosInfinity
      | NegInfinity \<Rightarrow> NegInfinity)"

text \<open>Lines 341 to 344. The bulk delete's failure is swallowed, the confirmation is awaited.\<close>

definition clear_cmd :: "platform \<Rightarrow> incoming \<Rightarrow> string list \<Rightarrow> world \<Rightarrow> settled \<times> world" where
  "clear_cmd p m args w =
     (let amt = clear_amount p args;
          w1 = snd (invoke p (BulkDelete (m_channel m) (js_min amt (Finite 100))) w)
      in case invoke p (ChannelSend (m_channel m) (Cleared amt)) w1 of
           (True, w2) \<Rightarrow> (Resolved, w2\<lparr>timers := timers w2 @ [(3000, DeleteConfirmation)]\<rparr>)
         | (False, w2) \<Rightarrow> (Rejected, w2))"

text \<open>Lines 348 to 351. The last reply is sent whether the ban worked or not, and not awaited.\<close>

definition ban_cmd :: "platform \<Rightarrow> incoming \<Rightarrow> world \<Rightarrow> settled \<times> world" where
  "ban_cmd p m w =
     (case mentioned m of
        [] \<Rightarrow> returned (invoke p (MessageReply MentionSomeone) w)
      | mem # others \<Rightarrow>
          (case invoke p (Ban mem (sender_tag m)) w of
             (True, w1) \<Rightarrow> (Resolved, floating (invoke p (MessageReply Banned) w1))
           | (False, w1) \<Rightarrow>
               (case invoke p (MessageReply BanFailed) w1 of
                  (True, w2) \<Rightarrow> (Resolved, floating (invoke p (MessageReply Banned) w2))
                | (False, w2) \<Rightarrow> (Rejected, w2))))"

text \<open>Lines 355 to 358.\<close>

definition kick_cmd :: "platform \<Rightarrow> incoming \<Rightarrow> world \<Rightarrow> settled \<times> world" where
  "kick_cmd p m w =
     (case mentioned m of
        [] \<Rightarrow> returned (invoke p (MessageReply MentionSomeone) w)
      | mem # others \<Rightarrow>
          (case invoke p (Kick mem) w of
             (True, w1) \<Rightarrow> (Resolved, floating (invoke p (MessageReply Kicked) w1))
           | (False, w1) \<Rightarrow>
               (case invoke p (MessageReply KickFailed) w1 of
                  (True, w2) \<Rightarrow> (Resolved, floating (invoke p (MessageReply Kicked) w2))
                | (False, w2) \<Rightarrow> (Rejected, w2))))"

text \<open>
  The handler. The three tests of lines 340, 347 and 354 compare the same \<^verbatim>\<open>cmd\<close> with
  three different words, so at most one of the bodies runs. \<^verbatim>\<open>args.shift()\<close> of an empty
  array would be \<^verbatim>\<open>undefined\<close>, whose \<^verbatim>\<open>toLowerCase\<close> throws.
\<close>

definition on_message :: "config \<Rightarrow> platform \<Rightarrow> incoming \<Rightarrow> world \<Rightarrow> settled \<times> world" where
  "on_message conf p m w =
     (if \<not> in_guild m then (Resolved, w)
      else if author_bot m then (Resolved, w)
      else
        (let pre = (if prefix conf = [] then ''!'' else prefix conf)
         in if \<not> startsWith (m_content m) pre then (Resolved, w)
            else
              (case split_spaces (trim (drop (length pre) (m_content m))) of
                 [] \<Rightarrow> (Rejected, w)
               | first # args \<Rightarrow>
                   (let cmd = toLowerCase p first;
                        ok = allow conf (author_id m) (member_manage m)
                    in if cmd = ''clear'' \<and> ok then clear_cmd p m args w
                       else if cmd = ''ban'' \<and> ok then ban_cmd p m w
                       else if cmd = ''kick'' \<and> ok then kick_cmd p m w
                       else (Resolved, w)))))"

section \<open>Reading a trace\<close>

text \<open>
  The channels whose creation a trace requests, the notices it sends as initial replies
  and as edits, and the ids of the channels whose deletion it requests.
\<close>

definition creations :: "call list \<Rightarrow> create_opts list" where
  "creations tr = concat (map (\<lambda>c. case c of CreateChannel opts \<Rightarrow> [opts] | _ \<Rightarrow> []) tr)"

definition initial_replies :: "call list \<Rightarrow> notice list" where
  "initial_replies tr = concat (map (\<lambda>c. case c of Reply n \<Rightarrow> [n] | _ \<Rightarrow> []) tr)"

definition edits :: "call list \<Rightarrow> notice list" where
  "edits tr = concat (map (\<lambda>c. case c of EditReply n \<Rightarrow> [n] | _ \<Rightarrow> []) tr)"

definition deletions :: "call list \<Rightarrow> string list" where
  "deletions tr = concat (map (\<lambda>c. case c of DeleteChannel i \<Rightarrow> [i] | _ \<Rightarrow> []) tr)"

text \<open>
  The channel a successful creation of the requester's ticket yields, the requests of the
  log step of lines 311 to 314 once that channel is \<open>ch\<close>, and whether that step throws
  (the log channel is configured, cached and has no \<^verbatim>\<open>send\<close>).
\<close>

definition new_channel :: "config \<Rightarrow> platform \<Rightarrow> interaction \<Rightarrow> world \<Rightarrow> channel" where
  "new_channel conf p ia w =
     \<lparr>ch_id = fresh_id p (cache w), ch_name = o_name (ticket_opts conf p ia), ch_type = GuildText,
      ch_overwrites = o_overwrites (ticket_opts conf p ia),
      ch_parent = o_parent (ticket_opts conf p ia)\<rparr>"

definition log_requests :: "config \<Rightarrow> channel list \<Rightarrow> user \<Rightarrow> channel \<Rightarrow> call list" where
  "log_requests conf cs u ch =
     (if truthy (logChannel conf) then
        (case cache_get cs (logChannel conf) of
           None \<Rightarrow> []
         | Some lc \<Rightarrow>
             if has_send lc then [ChannelSend (ch_id lc) (NewTicketLog (tag u) (ch_id ch))] else [])
      else [])"

definition log_throws :: "config \<Rightarrow> channel list \<Rightarrow> bool" where
  "log_throws conf cs =
     (truthy (logChannel conf) \<and>
      (case cache_get cs (logChannel conf) of None \<Rightarrow> False | Some lc \<Rightarrow> \<not> has_send lc))"

text \<open>The world a handler hands to \<^verbatim>\<open>createTicket\<close> after a successful \<^verbatim>\<open>deferReply\<close>.\<close>

definition acknowledged :: "world \<Rightarrow> world" where
  "acknowledged w = w\<lparr>trace := trace w @ [DeferReply], deferred := True\<rparr>"

section \<open>Sample inputs\<close>

definition alice :: user where
  "alice = \<lparr>user_id = ''1001'', username = ''Alice'', tag = ''Alice#0001''\<rparr>"

definition lobby :: channel where
  "lobby = \<lparr>ch_id = ''300'', ch_name = ''lobby'', ch_type = GuildText, ch_overwrites = [], ch_parent = None\<rparr>"

definition logs :: channel where
  "logs = \<lparr>ch_id = ''600'', ch_name = ''logs'', ch_type = GuildText, ch_overwrites = [], ch_parent = None\<rparr>"


definition alice_ticket :: channel where
  "alice_ticket =
     \<lparr>ch_id = ''777'', ch_name = ''ticket-alice'', ch_type = GuildText, ch_overwrites = [], ch_parent = None\<rparr>"

definition sample_conf :: config where
  "sample_conf =
     \<lparr>admins = JArr [JStr ''42''], handlersRole = JArr [JStr ''701'', JStr ''702''],
      rolesToMention = JArr [JStr ''701''], ticketCategory = JStr ''500'',
      logChannel = JStr ''600'', embedColor = JNull, footerText = JStr ''Support'',
      ticketTitle = JNull, ticketMessage = JNull, prefix = []\<rparr>"

definition press :: "channel \<Rightarrow> interaction" where
  "press ch = \<lparr>i_user = alice, i_guild_id = ''1'', i_channel = ch, has_manage = False\<rparr>"

definition msg1 :: message where
  "msg1 = \<lparr>createdTimestamp = 1000, author_tag = ''Alice#0001'', content = ''hello''\<rparr>"

definition msg2 :: message where
  "msg2 = \<lparr>createdTimestamp = 2000, author_tag = ''Bob#0002'', content = []\<rparr>"

definition msg3 :: message where
  "msg3 = \<lparr>createdTimestamp = 3000, author_tag = ''Alice#0001'', content = ''bye''\<rparr>"

text \<open>A message typed in the lobby by a member who is not a bot and mentions nobody.\<close>

definition say :: "string \<Rightarrow> bool \<Rightarrow> string \<Rightarrow> incoming" where
  "say uid manage txt =
     \<lparr>in_guild = True, author_id = uid, sender_tag = uid @ ''#0000'', author_bot = False,
      m_content = txt, m_channel = ''300'', member_manage = manage, mentioned = []\<rparr>"

text \<open>
  A run time for ASCII text: it lowercases the letters A to Z and writes an integer in
  decimal digits.
\<close>

definition lower_char :: "char \<Rightarrow> char" where
  "lower_char c =
     (case map_of (zip ''ABCDEFGHIJKLMNOPQRSTUVWXYZ'' ''abcdefghijklmnopqrstuvwxyz'') c of
        Some d \<Rightarrow> d
      | None \<Rightarrow> c)"

fun digits :: "nat \<Rightarrow> string" where
  "digits n =
     (if n < 10 then [''0123456789'' ! n]
      else digits (n div 10) @ [''0123456789'' ! (n mod 10)])"

declare digits.simps [simp del]

text \<open>
  A platform on which exactly the requests satisfying \<open>bad\<close> fail; its library knows the
  default colour only.
\<close>

definition failing :: "(call \<Rightarrow> bool) \<Rightarrow> platform" where
  "failing bad =
     \<lparr>outcome_of = (\<lambda>h c. if bad c then Fails else Succeeds),
      fresh_id = (\<lambda>cs. ''900''),
      recent = (\<lambda>c. [msg3, msg2, msg1]),
      toISOString = (\<lambda>t. if t = 1000 then ''T1'' else if t = 2000 then ''T2'' else ''T3''),
      toLowerCase = map lower_char,
      nearest_double = to_double,
      numberToString = (\<lambda>n. if n < 0 then ''-'' @ digits (nat (- n)) else digits (nat n)),
      resolveColor = (\<lambda>v. v = JStr ''#2b2d31'')\<rparr>"

definition calm :: platform where
  "calm = failing (\<lambda>c. False)"

text \<open>The world in which a new interaction arrives, before any request.\<close>

definition start :: "channel list \<Rightarrow> world" where
  "start cs =
     \<lparr>cache = cs, replied = False, deferred = False, trace = [], console = [],
      timers = [], unhandled = 0\<rparr>"







section \<open>The admin gate\<close>

lemma admin_list_mem:
  "(JStr uid \<in> set xs) =
   (uid \<in> set (concat (map (\<lambda>v. case v of JStr s \<Rightarrow> [s] | _ \<Rightarrow> []) xs)))"
proof (induction xs)
  case Nil
  show ?case by simp
next
  case (Cons a xs)
  then show ?case by (cases a) auto
qed

lemma isAdmin_admin_list: "isAdmin conf uid = (uid \<in> set (admin_list conf))"
proof (cases "admins conf")
  case (JArr xs)
  then show ?thesis
    unfolding isAdmin_def admin_list_def using admin_list_mem[of uid xs] by simp
qed (simp_all add: isAdmin_def admin_list_def)

text \<open>
  C7. The gate of line 338 is true exactly when the caller's id is in the configured admin
  list or the caller has the manage permission, and the refusal of lines 143 and 173 is its
  negation; so with the id "123" and no permission it is membership of "123" in the list,
  and with the permission it is true whatever the list holds. It is a function of the
  configuration and its two arguments only.
\<close>

theorem admin_gate:
  "allow conf uid manage = (uid \<in> set (admin_list conf) \<or> manage)
   \<and> refused conf manage uid = (\<not> (uid \<in> set (admin_list conf) \<or> manage))
   \<and> allow conf ''123'' False = (''123'' \<in> set (admin_list conf))
   \<and> allow conf ''999'' True"
  unfolding allow_def refused_def isAdmin_admin_list by blast

section \<open>The transcript\<close>

lemma sorted_rev_ts:
  "sorted_wrt (\<lambda>a b. createdTimestamp b \<le> createdTimestamp a) ms \<Longrightarrow>
   sorted_wrt (\<lambda>a b. createdTimestamp a \<le> createdTimestamp b) (rev ms)"
  by (simp add: sorted_wrt_rev)

lemma close_timer_writes:
  "outcome_of p (trace w) (FetchMessages (ch_id ch) 100) = Succeeds \<Longrightarrow>
   \<exists>rest. trace (snd (close_timer conf p ch closer w)) =
      trace w @ [FetchMessages (ch_id ch) 100,
                 WriteFile (''transcript-'' @ ch_id ch @ ''.txt'')
                   (transcript p (take 100 (recent p (ch_id ch))))] @ rest"
  by (simp add: close_timer_def fetch_def invoke_def delete_quietly_def forward_def Let_def
      split: option.splits prod.splits bool.splits)

text \<open>
  C4. The transcript is the fetched messages in reverse order, one formatted line each,
  joined by line feeds: fetched as m3, m2, m1 it reads m1, m2, m3, and a list fetched newest
  first comes out oldest first. A line is \<^verbatim>\<open>[timestamp] author: content\<close>, with
  \<^verbatim>\<open>[embed/attachment]\<close> for a message without text. When the fetch succeeds, this
  transcript of the (at most 100) fetched messages is what the callback writes to the file.
\<close>

theorem transcript_chronological:
  "transcript p ms = join [CHR 0x0A] (map (format_line p) (rev ms))
   \<and> transcript p [m3, m2, m1] =
       format_line p m1 @ [CHR 0x0A] @ format_line p m2 @ [CHR 0x0A] @ format_line p m3
   \<and> (sorted_wrt (\<lambda>a b. createdTimestamp b \<le> createdTimestamp a) ms \<longrightarrow>
       sorted_wrt (\<lambda>a b. createdTimestamp a \<le> createdTimestamp b) (rev ms))
   \<and> format_line p m =
       ''['' @ toISOString p (createdTimestamp m) @ ''] '' @ author_tag m @ '': '' @
       (if content m = [] then ''[embed/attachment]'' else content m)
   \<and> (outcome_of p (trace w) (FetchMessages (ch_id ch) 100) = Succeeds \<longrightarrow>
       (\<exists>rest. trace (snd (close_timer conf p ch closer w)) =
          trace w @ [FetchMessages (ch_id ch) 100,
                     WriteFile (''transcript-'' @ ch_id ch @ ''.txt'')
                       (transcript p (take 100 (recent p (ch_id ch))))] @ rest))"
proof -
  have "transcript p ms = join [CHR 0x0A] (map (format_line p) (rev ms))"
    by (simp add: transcript_def rev_map)
  moreover have "transcript p [m3, m2, m1] =
      format_line p m1 @ [CHR 0x0A] @ format_line p m2 @ [CHR 0x0A] @ format_line p m3"
    by (simp add: transcript_def)
  ultimately show ?thesis
    using sorted_rev_ts[of ms] close_timer_writes[of p w ch conf closer]
    by (simp add: format_line_def)
qed

theorem transcript_chronological_witness:
  "sorted_wrt (\<lambda>a b. createdTimestamp b \<le> createdTimestamp a) [msg3, msg2, msg1]
   \<and> sorted_wrt (\<lambda>a b. createdTimestamp a \<le> createdTimestamp b) (rev [msg3, msg2, msg1])
   \<and> transcript calm [msg3, msg2, msg1]
       = ''[T1] Alice#0001: hello'' @ [CHR 0x0A] @ ''[T2] Bob#0002: [embed/attachment]''
         @ [CHR 0x0A] @ ''[T3] Alice#0001: bye''
   \<and> outcome_of calm (trace (start [alice_ticket])) (FetchMessages (ch_id alice_ticket) 100) = Succeeds
   \<and> (\<exists>rest. trace (snd (close_timer sample_conf calm alice_ticket ''Alice#0001'' (start [alice_ticket]))) =
          trace (start [alice_ticket]) @ [FetchMessages (ch_id alice_ticket) 100,
           WriteFile (''transcript-'' @ ch_id alice_ticket @ ''.txt'')
             (transcript calm (take 100 (recent calm (ch_id alice_ticket))))] @ rest)"
proof -
  note t = transcript_chronological[of calm "[msg3, msg2, msg1]" msg3 msg2 msg1 msg2
      "start [alice_ticket]" alice_ticket sample_conf "''Alice#0001''"]
  have h1: "sorted_wrt (\<lambda>a b. createdTimestamp b \<le> createdTimestamp a) [msg3, msg2, msg1]"
    by (simp add: msg1_def msg2_def msg3_def)
  have h2: "outcome_of calm (trace (start [alice_ticket])) (FetchMessages (ch_id alice_ticket) 100)
      = Succeeds"
    by (simp add: calm_def failing_def)
  have lines: "format_line calm msg1 = ''[T1] Alice#0001: hello''"
    "format_line calm msg2 = ''[T2] Bob#0002: [embed/attachment]''"
    "format_line calm msg3 = ''[T3] Alice#0001: bye''"
    by (simp_all add: format_line_def msg1_def msg2_def msg3_def calm_def failing_def)
  from t have "transcript calm [msg3, msg2, msg1] =
      format_line calm msg1 @ [CHR 0x0A] @ format_line calm msg2 @ [CHR 0x0A] @ format_line calm msg3"
    by blast
  then have rendered: "transcript calm [msg3, msg2, msg1]
       = ''[T1] Alice#0001: hello'' @ [CHR 0x0A] @ ''[T2] Bob#0002: [embed/attachment]''
         @ [CHR 0x0A] @ ''[T3] Alice#0001: bye''"
    by (simp only: lines)
  from t h1 h2 rendered show ?thesis by blast
qed

section \<open>Facts about the requests\<close>

lemma creations_append [simp]: "creations (xs @ ys) = creations xs @ creations ys"
  by (simp add: creations_def)

lemma creations_simps [simp]:
  "creations [] = []"
  "creations (CreateChannel opts # tr) = opts # creations tr"
  "creations (DeferReply # tr) = creations tr"
  "creations (Reply n # tr) = creations tr"
  "creations (EditReply n # tr) = creations tr"
  "creations (ChannelSend i b # tr) = creations tr"
  by (simp_all add: creations_def)

lemma deletions_append [simp]: "deletions (xs @ ys) = deletions xs @ deletions ys"
  by (simp add: deletions_def)

lemma deletions_simps [simp]:
  "deletions [] = []"
  "deletions (DeleteChannel i # tr) = i # deletions tr"
  "deletions (DeferReply # tr) = deletions tr"
  "deletions (Reply n # tr) = deletions tr"
  "deletions (EditReply n # tr) = deletions tr"
  "deletions (CreateChannel opts # tr) = deletions tr"
  "deletions (ChannelSend c b # tr) = deletions tr"
  "deletions (FetchMessages c k # tr) = deletions tr"
  "deletions (WriteFile f t # tr) = deletions tr"
  "deletions (UnlinkFile f # tr) = deletions tr"
  by (simp_all add: deletions_def)

lemma editReply_cache: "cache (snd (editReply p n w)) = cache w"
  by (simp add: editReply_def invoke_def split: prod.splits bool.splits)

lemma editReply_trace:
  "trace (snd (editReply p n w)) = trace w @ (if deferred w \<or> replied w then [EditReply n] else [])"
  by (simp add: editReply_def invoke_def split: prod.splits bool.splits)

lemma deferReply_ok:
  "\<not> deferred w \<Longrightarrow> \<not> replied w \<Longrightarrow> outcome_of p (trace w) DeferReply = Succeeds \<Longrightarrow>
   deferReply p w = (True, acknowledged w)"
  by (simp add: deferReply_def invoke_def acknowledged_def)

lemma deferReply_failed:
  "\<not> deferred w \<Longrightarrow> \<not> replied w \<Longrightarrow> outcome_of p (trace w) DeferReply \<noteq> Succeeds \<Longrightarrow>
   deferReply p w = (False, w\<lparr>trace := trace w @ [DeferReply]\<rparr>)"
  by (simp add: deferReply_def invoke_def)





lemma acknowledged_simps [simp]:
  "cache (acknowledged w) = cache w"
  "trace (acknowledged w) = trace w @ [DeferReply]"
  "deferred (acknowledged w)"
  "replied (acknowledged w) = replied w"
  "timers (acknowledged w) = timers w"
  by (simp_all add: acknowledged_def)

section \<open>The paths of createTicket\<close>





lemma menu_button: "on_ticket_button conf p ia w = on_ticket_menu conf p ia ''general'' w"
  by (simp add: on_ticket_button_def on_ticket_menu_def)



lemma create_ok:
  "outcome_of p (trace w) (CreateChannel (ticket_opts conf p ia)) = Succeeds \<Longrightarrow>
   create p (ticket_opts conf p ia) w =
     (Some (new_channel conf p ia w),
      w\<lparr>cache := cache w @ [new_channel conf p ia w],
        trace := trace w @ [CreateChannel (ticket_opts conf p ia)]\<rparr>)"
  by (simp add: create_def invoke_def new_channel_def Let_def ticket_opts_def)

lemma create_failed:
  "outcome_of p (trace w) (CreateChannel opts) \<noteq> Succeeds \<Longrightarrow>
   create p opts w = (None, w\<lparr>trace := trace w @ [CreateChannel opts]\<rparr>)"
  by (simp add: create_def invoke_def)

lemma new_channel_simps:
  "ch_id (new_channel conf p ia w) = fresh_id p (cache w)"
  "ch_name (new_channel conf p ia w) = toLowerCase p (''ticket-'' @ username (i_user ia))"
  "ch_type (new_channel conf p ia w) = GuildText"
  "ch_overwrites (new_channel conf p ia w) = o_overwrites (ticket_opts conf p ia)"
  "ch_parent (new_channel conf p ia w) = o_parent (ticket_opts conf p ia)"
  "new_channel conf p ia (acknowledged w) = new_channel conf p ia w"
  by (simp_all add: new_channel_def ticket_opts_def acknowledged_def)

lemma log_new_ticket_trace:
  "trace (snd (log_new_ticket conf p u ch w)) = trace w @ log_requests conf (cache w) u ch"
  by (simp add: log_new_ticket_def log_requests_def floating_def invoke_def split: option.splits)

lemma log_new_ticket_cache:
  "cache (snd (log_new_ticket conf p u ch w)) = cache w"
  by (simp add: log_new_ticket_def floating_def invoke_def split: option.splits)

lemma log_new_ticket_flags:
  "deferred (snd (log_new_ticket conf p u ch w)) = deferred w"
  "replied (snd (log_new_ticket conf p u ch w)) = replied w"
  by (simp_all add: log_new_ticket_def floating_def invoke_def split: option.splits)

lemma log_new_ticket_result:
  "fst (log_new_ticket conf p u ch w) = (\<not> log_throws conf (cache w))"
  by (simp add: log_new_ticket_def log_throws_def split: option.splits)

lemma log_new_ticket_throws:
  "log_throws conf (cache w) \<Longrightarrow> log_new_ticket conf p u ch w = (False, w)"
  by (auto simp add: log_new_ticket_def log_throws_def split: option.splits)

lemma log_new_ticket_rejected:
  "log_requests conf (cache w) u ch = [lg] \<Longrightarrow> outcome_of p (trace w) lg \<noteq> Succeeds \<Longrightarrow>
   unhandled (snd (log_new_ticket conf p u ch w)) = unhandled w + 1"
  by (auto simp add: log_new_ticket_def log_requests_def floating_def invoke_def
      split: option.splits if_splits)

lemma log_requests_not_throws:
  "log_requests conf cs u ch = [lg] \<Longrightarrow> \<not> log_throws conf cs"
  by (auto simp add: log_requests_def log_throws_def split: option.splits if_splits)

lemma creations_log_requests [simp]: "creations (log_requests conf cs u ch) = []"
  by (simp add: log_requests_def split: option.splits)

lemma deletions_log_requests [simp]: "deletions (log_requests conf cs u ch) = []"
  by (simp add: log_requests_def split: option.splits)

lemma editReply_unhandled: "unhandled (snd (editReply p n w)) = unhandled w"
  by (simp add: editReply_def invoke_def split: prod.splits bool.splits)

lemma createTicket_catch_trace:
  "trace (snd (createTicket_catch p w)) =
     trace w @ [if \<not> replied w \<and> \<not> deferred w then Reply TicketError else EditReply TicketError]"
  by (simp add: createTicket_catch_def returned_def reply_def editReply_def invoke_def Let_def
      split: prod.splits bool.splits)

lemma createTicket_catch_cache: "cache (snd (createTicket_catch p w)) = cache w"
  by (simp add: createTicket_catch_def returned_def reply_def editReply_def invoke_def Let_def
      split: prod.splits bool.splits)

lemma createTicket_create_fails:
  assumes "find (ticket_of p (i_user ia)) (cache w) = None"
    and "outcome_of p (trace w) (CreateChannel (ticket_opts conf p ia)) \<noteq> Succeeds"
  shows "createTicket conf p ia t w =
     createTicket_catch p (w\<lparr>trace := trace w @ [CreateChannel (ticket_opts conf p ia)]\<rparr>)"
  using assms unfolding createTicket_def Let_def by (simp add: create_failed)

lemma createTicket_embed_fails:
  assumes "find (ticket_of p (i_user ia)) (cache w) = None"
    and "outcome_of p (trace w) (CreateChannel (ticket_opts conf p ia)) = Succeeds"
    and "\<not> ticket_embed_built conf p (i_user ia) t"
  shows "createTicket conf p ia t w =
     createTicket_catch p
       (w\<lparr>cache := cache w @ [new_channel conf p ia w],
          trace := trace w @ [CreateChannel (ticket_opts conf p ia)]\<rparr>)"
  using assms unfolding createTicket_def Let_def
  by (simp add: create_ok)

lemma createTicket_intro_fails:
  assumes "find (ticket_of p (i_user ia)) (cache w) = None"
    and "outcome_of p (trace w) (CreateChannel (ticket_opts conf p ia)) = Succeeds"
    and "ticket_embed_built conf p (i_user ia) t"
    and "outcome_of p (trace w @ [CreateChannel (ticket_opts conf p ia)])
        (ChannelSend (fresh_id p (cache w)) (Intro (intro_content conf p (i_user ia)) t)) \<noteq> Succeeds"
  shows "createTicket conf p ia t w =
     createTicket_catch p
       (w\<lparr>cache := cache w @ [new_channel conf p ia w],
          trace := trace w @ [CreateChannel (ticket_opts conf p ia),
             ChannelSend (fresh_id p (cache w)) (Intro (intro_content conf p (i_user ia)) t)]\<rparr>)"
  using assms unfolding createTicket_def Let_def
  by (simp add: create_ok invoke_def new_channel_simps)

lemma createTicket_log_throws:
  assumes "find (ticket_of p (i_user ia)) (cache w) = None"
    and "outcome_of p (trace w) (CreateChannel (ticket_opts conf p ia)) = Succeeds"
    and "ticket_embed_built conf p (i_user ia) t"
    and "outcome_of p (trace w @ [CreateChannel (ticket_opts conf p ia)])
        (ChannelSend (fresh_id p (cache w)) (Intro (intro_content conf p (i_user ia)) t)) = Succeeds"
    and "log_throws conf (cache w @ [new_channel conf p ia w])"
  shows "createTicket conf p ia t w =
     createTicket_catch p
       (w\<lparr>cache := cache w @ [new_channel conf p ia w],
          trace := trace w @ [CreateChannel (ticket_opts conf p ia),
             ChannelSend (fresh_id p (cache w)) (Intro (intro_content conf p (i_user ia)) t)]\<rparr>)"
  using assms unfolding createTicket_def Let_def
  by (simp add: create_ok invoke_def new_channel_simps log_new_ticket_throws)

lemma createTicket_after_log:
  assumes "find (ticket_of p (i_user ia)) (cache w) = None"
    and "outcome_of p (trace w) (CreateChannel (ticket_opts conf p ia)) = Succeeds"
    and "ticket_embed_built conf p (i_user ia) t"
    and "outcome_of p (trace w @ [CreateChannel (ticket_opts conf p ia)])
        (ChannelSend (fresh_id p (cache w)) (Intro (intro_content conf p (i_user ia)) t)) = Succeeds"
    and "\<not> log_throws conf (cache w @ [new_channel conf p ia w])"
  shows "createTicket conf p ia t w =
     returned (editReply p (TicketCreated (fresh_id p (cache w)))
       (snd (log_new_ticket conf p (i_user ia) (new_channel conf p ia w)
         (w\<lparr>cache := cache w @ [new_channel conf p ia w],
            trace := trace w @ [CreateChannel (ticket_opts conf p ia),
               ChannelSend (fresh_id p (cache w)) (Intro (intro_content conf p (i_user ia)) t)]\<rparr>))))"
proof -
  let ?w2 = "w\<lparr>cache := cache w @ [new_channel conf p ia w],
            trace := trace w @ [CreateChannel (ticket_opts conf p ia),
               ChannelSend (fresh_id p (cache w)) (Intro (intro_content conf p (i_user ia)) t)]\<rparr>"
  obtain ok w3 where l: "log_new_ticket conf p (i_user ia) (new_channel conf p ia w) ?w2 = (ok, w3)"
    by (cases "log_new_ticket conf p (i_user ia) (new_channel conf p ia w) ?w2")
  have "ok"
    using log_new_ticket_result[of conf p "i_user ia" "new_channel conf p ia w" ?w2] l assms(5)
    by simp
  with l assms(1-4) show ?thesis
    unfolding createTicket_def Let_def
    by (simp add: create_ok invoke_def new_channel_simps)
qed

text \<open>
  Every run of \<^verbatim>\<open>createTicket\<close> that finds no ticket of the requester: the first request
  is the creation with the options of lines 270 to 287 and no other creation follows; the
  cache gains the channel made from these options when the platform accepts the creation,
  and stays as it was otherwise; no deletion is requested.
\<close>

lemma createTicket_shape:
  assumes absent: "find (ticket_of p (i_user ia)) (cache w) = None"
  shows "\<exists>rest. trace (snd (createTicket conf p ia t w)) =
            trace w @ CreateChannel (ticket_opts conf p ia) # rest
          \<and> creations rest = [] \<and> deletions rest = []"
    and "cache (snd (createTicket conf p ia t w)) =
          (if outcome_of p (trace w) (CreateChannel (ticket_opts conf p ia)) = Succeeds
           then cache w @ [new_channel conf p ia w] else cache w)"
proof -
  let ?opts = "ticket_opts conf p ia"
  let ?post = "ChannelSend (fresh_id p (cache w)) (Intro (intro_content conf p (i_user ia)) t)"
  have "(\<exists>rest. trace (snd (createTicket conf p ia t w)) = trace w @ CreateChannel ?opts # rest
          \<and> creations rest = [] \<and> deletions rest = [])
      \<and> cache (snd (createTicket conf p ia t w)) =
          (if outcome_of p (trace w) (CreateChannel ?opts) = Succeeds
           then cache w @ [new_channel conf p ia w] else cache w)"
  proof (cases "outcome_of p (trace w) (CreateChannel ?opts) = Succeeds")
    case False
    from createTicket_create_fails[OF absent this, of t] False show ?thesis
      by (simp add: createTicket_catch_trace createTicket_catch_cache)
  next
    case created: True
    show ?thesis
    proof (cases "ticket_embed_built conf p (i_user ia) t")
      case False
      from createTicket_embed_fails[OF absent created this] created show ?thesis
        by (simp add: createTicket_catch_trace createTicket_catch_cache)
    next
      case built: True
      show ?thesis
      proof (cases "outcome_of p (trace w @ [CreateChannel ?opts]) ?post = Succeeds")
        case False
        from createTicket_intro_fails[OF absent created built this] created show ?thesis
          by (simp add: createTicket_catch_trace createTicket_catch_cache)
      next
        case posted: True
        show ?thesis
        proof (cases "log_throws conf (cache w @ [new_channel conf p ia w])")
          case True
          from createTicket_log_throws[OF absent created built posted this] created show ?thesis
            by (simp add: createTicket_catch_trace createTicket_catch_cache)
        next
          case False
          from createTicket_after_log[OF absent created built posted this] created show ?thesis
            by (simp add: returned_def editReply_trace editReply_cache log_new_ticket_trace
                log_new_ticket_cache log_new_ticket_flags)
        qed
      qed
    qed
  qed
  then show "\<exists>rest. trace (snd (createTicket conf p ia t w)) =
            trace w @ CreateChannel ?opts # rest \<and> creations rest = [] \<and> deletions rest = []"
    and "cache (snd (createTicket conf p ia t w)) =
          (if outcome_of p (trace w) (CreateChannel ?opts) = Succeeds
           then cache w @ [new_channel conf p ia w] else cache w)"
    by blast+
qed

section \<open>Opening a ticket\<close>








section \<open>The permissions of a ticket channel\<close>

lemma handler_overwrites_grants: "ow \<in> set (handler_overwrites conf) \<Longrightarrow> \<exists>r. ow = grant r"
proof (cases "handlersRole conf")
  case (JArr rs)
  assume "ow \<in> set (handler_overwrites conf)"
  with JArr show ?thesis by (cases rs) (auto simp add: handler_overwrites_def)
qed (auto simp add: handler_overwrites_def split: if_splits)

lemma handler_overwrites_list:
  "handlersRole conf = JArr rs \<Longrightarrow> r \<in> set rs \<Longrightarrow> grant r \<in> set (handler_overwrites conf)"
  by (cases rs) (auto simp add: handler_overwrites_def)

lemma handler_overwrites_single:
  "handlersRole conf = JStr r \<Longrightarrow> r \<noteq> [] \<Longrightarrow> handler_overwrites conf = [grant (JStr r)]"
  by (simp add: handler_overwrites_def)

lemma create_carries:
  "create p opts w = (Some ch, w') \<Longrightarrow>
   ch_name ch = o_name opts \<and> ch_type ch = o_type opts \<and> ch_overwrites ch = o_overwrites opts
   \<and> ch_parent ch = o_parent opts \<and> cache w' = cache w @ [ch]"
  by (cases "outcome_of p (trace w) (CreateChannel opts) = Succeeds")
    (auto simp add: create_def invoke_def Let_def)


lemma ticket_opts_simps:
  "o_type (ticket_opts conf p ia) = GuildText"
  "o_overwrites (ticket_opts conf p ia) =
     [\<lparr>ow_id = JStr (i_guild_id ia), ow_allow = [], ow_deny = [ViewChannel]\<rparr>,
      \<lparr>ow_id = JStr (user_id (i_user ia)), ow_allow = [ViewChannel, SendMessages], ow_deny = []\<rparr>]
     @ handler_overwrites conf"
  "o_parent (ticket_opts conf p ia) =
     (if truthy (ticketCategory conf) then Some (ticketCategory conf) else None)"
  by (simp_all add: ticket_opts_def)

text \<open>
  C6. Let no channel of the cache pass the test of line 263 for the requester. Then
  \<^verbatim>\<open>createTicket\<close> requests exactly one creation, whatever the platform answers, and so do
  the menu and button handlers once their deferral is accepted. The channel requested is a
  text channel whose overwrites are, in this order, the denial of \<^verbatim>\<open>ViewChannel\<close> for the
  guild id, the grant of \<^verbatim>\<open>ViewChannel\<close> and \<^verbatim>\<open>SendMessages\<close> for the requester, and grants
  of the same two permissions and nothing else: one for the configured handler role when
  the configuration gives a single role id, one for every element when it gives a list.
  Its parent is the configured ticket category when there is one, and none otherwise.
  When the platform accepts the creation, the channel that \<^verbatim>\<open>createTicket\<close> leaves in the
  cache has this type, these overwrites and this parent; when it refuses, the cache is
  unchanged.
\<close>

theorem ticket_permissions:
  assumes none: "\<forall>c \<in> set (cache w). \<not> ticket_of p (i_user ia) c"
  shows "creations (trace (snd (createTicket conf p ia t w))) =
           creations (trace w) @ [ticket_opts conf p ia]
     \<and> (\<not> deferred w \<and> \<not> replied w \<and> outcome_of p (trace w) DeferReply = Succeeds \<longrightarrow>
           creations (trace (snd (on_ticket_menu conf p ia t w))) =
             creations (trace w) @ [ticket_opts conf p ia]
         \<and> creations (trace (snd (on_ticket_button conf p ia w))) =
             creations (trace w) @ [ticket_opts conf p ia])
     \<and> o_type (ticket_opts conf p ia) = GuildText
     \<and> o_overwrites (ticket_opts conf p ia) =
         [\<lparr>ow_id = JStr (i_guild_id ia), ow_allow = [], ow_deny = [ViewChannel]\<rparr>,
          \<lparr>ow_id = JStr (user_id (i_user ia)), ow_allow = [ViewChannel, SendMessages], ow_deny = []\<rparr>]
         @ handler_overwrites conf
     \<and> (\<forall>ow \<in> set (handler_overwrites conf).
          \<exists>r. ow = \<lparr>ow_id = r, ow_allow = [ViewChannel, SendMessages], ow_deny = []\<rparr>)
     \<and> (\<forall>r. handlersRole conf = JStr r \<and> r \<noteq> [] \<longrightarrow>
          handler_overwrites conf =
            [\<lparr>ow_id = JStr r, ow_allow = [ViewChannel, SendMessages], ow_deny = []\<rparr>])
     \<and> (\<forall>rs. handlersRole conf = JArr rs \<longrightarrow>
          (\<forall>r \<in> set rs. \<lparr>ow_id = r, ow_allow = [ViewChannel, SendMessages], ow_deny = []\<rparr>
             \<in> set (o_overwrites (ticket_opts conf p ia))))
     \<and> (truthy (ticketCategory conf) \<longrightarrow>
          o_parent (ticket_opts conf p ia) = Some (ticketCategory conf))
     \<and> (\<not> truthy (ticketCategory conf) \<longrightarrow> o_parent (ticket_opts conf p ia) = None)
     \<and> (outcome_of p (trace w) (CreateChannel (ticket_opts conf p ia)) = Succeeds \<longrightarrow>
          (\<exists>ch. cache (snd (createTicket conf p ia t w)) = cache w @ [ch]
             \<and> ch_type ch = GuildText
             \<and> ch_overwrites ch = o_overwrites (ticket_opts conf p ia)
             \<and> ch_parent ch = o_parent (ticket_opts conf p ia)))
     \<and> (outcome_of p (trace w) (CreateChannel (ticket_opts conf p ia)) \<noteq> Succeeds \<longrightarrow>
          cache (snd (createTicket conf p ia t w)) = cache w)"
proof (intro conjI)
  have absent: "find (ticket_of p (i_user ia)) (cache w) = None"
    using none by (simp add: find_None_iff)
  from createTicket_shape(1)[OF absent, of conf t]
  show one: "creations (trace (snd (createTicket conf p ia t w))) =
      creations (trace w) @ [ticket_opts conf p ia]"
    by auto
  show "\<not> deferred w \<and> \<not> replied w \<and> outcome_of p (trace w) DeferReply = Succeeds \<longrightarrow>
           creations (trace (snd (on_ticket_menu conf p ia t w))) =
             creations (trace w) @ [ticket_opts conf p ia]
         \<and> creations (trace (snd (on_ticket_button conf p ia w))) =
             creations (trace w) @ [ticket_opts conf p ia]"
  proof
    assume fresh: "\<not> deferred w \<and> \<not> replied w \<and> outcome_of p (trace w) DeferReply = Succeeds"
    have a: "find (ticket_of p (i_user ia)) (cache (acknowledged w)) = None"
      using absent by simp
    have "creations (trace (snd (createTicket conf p ia r (acknowledged w)))) =
        creations (trace w) @ [ticket_opts conf p ia]" for r
      using createTicket_shape(1)[OF a, of conf r] by auto
    with fresh show "creations (trace (snd (on_ticket_menu conf p ia t w))) =
             creations (trace w) @ [ticket_opts conf p ia]
         \<and> creations (trace (snd (on_ticket_button conf p ia w))) =
             creations (trace w) @ [ticket_opts conf p ia]"
      by (simp add: menu_button on_ticket_menu_def deferReply_ok)
  qed
  show "o_type (ticket_opts conf p ia) = GuildText"
    by (simp add: ticket_opts_simps)
  show "o_overwrites (ticket_opts conf p ia) =
     [\<lparr>ow_id = JStr (i_guild_id ia), ow_allow = [], ow_deny = [ViewChannel]\<rparr>,
      \<lparr>ow_id = JStr (user_id (i_user ia)), ow_allow = [ViewChannel, SendMessages], ow_deny = []\<rparr>]
     @ handler_overwrites conf"
    by (simp add: ticket_opts_simps)
  show "\<forall>ow \<in> set (handler_overwrites conf).
      \<exists>r. ow = \<lparr>ow_id = r, ow_allow = [ViewChannel, SendMessages], ow_deny = []\<rparr>"
  proof
    fix ow assume "ow \<in> set (handler_overwrites conf)"
    from handler_overwrites_grants[OF this] obtain r where "ow = grant r" ..
    then show "\<exists>r. ow = \<lparr>ow_id = r, ow_allow = [ViewChannel, SendMessages], ow_deny = []\<rparr>"
      unfolding grant_def by (rule exI)
  qed
  show "\<forall>r. handlersRole conf = JStr r \<and> r \<noteq> [] \<longrightarrow>
      handler_overwrites conf = [\<lparr>ow_id = JStr r, ow_allow = [ViewChannel, SendMessages], ow_deny = []\<rparr>]"
    using handler_overwrites_single[of conf] unfolding grant_def by blast
  show "\<forall>rs. handlersRole conf = JArr rs \<longrightarrow>
      (\<forall>r \<in> set rs. \<lparr>ow_id = r, ow_allow = [ViewChannel, SendMessages], ow_deny = []\<rparr>
         \<in> set (o_overwrites (ticket_opts conf p ia)))"
  proof (intro allI impI ballI)
    fix rs r assume "handlersRole conf = JArr rs" "r \<in> set rs"
    from handler_overwrites_list[OF this] show
      "\<lparr>ow_id = r, ow_allow = [ViewChannel, SendMessages], ow_deny = []\<rparr>
         \<in> set (o_overwrites (ticket_opts conf p ia))"
      by (simp add: ticket_opts_simps grant_def)
  qed
  show "truthy (ticketCategory conf) \<longrightarrow> o_parent (ticket_opts conf p ia) = Some (ticketCategory conf)"
    by (simp add: ticket_opts_simps)
  show "\<not> truthy (ticketCategory conf) \<longrightarrow> o_parent (ticket_opts conf p ia) = None"
    by (simp add: ticket_opts_simps)
  show "outcome_of p (trace w) (CreateChannel (ticket_opts conf p ia)) = Succeeds \<longrightarrow>
          (\<exists>ch. cache (snd (createTicket conf p ia t w)) = cache w @ [ch]
             \<and> ch_type ch = GuildText
             \<and> ch_overwrites ch = o_overwrites (ticket_opts conf p ia)
             \<and> ch_parent ch = o_parent (ticket_opts conf p ia))"
    using createTicket_shape(2)[OF absent, of conf t]
    by (auto simp add: new_channel_simps)
  show "outcome_of p (trace w) (CreateChannel (ticket_opts conf p ia)) \<noteq> Succeeds \<longrightarrow>
          cache (snd (createTicket conf p ia t w)) = cache w"
    using createTicket_shape(2)[OF absent, of conf t] by simp
qed

theorem ticket_permissions_witness:
  "\<not> ticket_of calm (i_user (press lobby)) lobby \<and> \<not> ticket_of calm (i_user (press lobby)) logs
   \<and> handlersRole sample_conf = JArr [JStr ''701'', JStr ''702'']
   \<and> truthy (ticketCategory sample_conf)
   \<and> outcome_of calm (trace (acknowledged (start [lobby, logs])))
        (CreateChannel (ticket_opts sample_conf calm (press lobby))) = Succeeds
   \<and> creations (trace (snd (createTicket sample_conf calm (press lobby) ''general''
        (acknowledged (start [lobby, logs]))))) = [ticket_opts sample_conf calm (press lobby)]
   \<and> o_overwrites (ticket_opts sample_conf calm (press lobby)) =
       [\<lparr>ow_id = JStr ''1'', ow_allow = [], ow_deny = [ViewChannel]\<rparr>,
        \<lparr>ow_id = JStr ''1001'', ow_allow = [ViewChannel, SendMessages], ow_deny = []\<rparr>,
        \<lparr>ow_id = JStr ''701'', ow_allow = [ViewChannel, SendMessages], ow_deny = []\<rparr>,
        \<lparr>ow_id = JStr ''702'', ow_allow = [ViewChannel, SendMessages], ow_deny = []\<rparr>]
   \<and> o_parent (ticket_opts sample_conf calm (press lobby)) = Some (JStr ''500'')
   \<and> (\<exists>ch. cache (snd (createTicket sample_conf calm (press lobby) ''general''
               (acknowledged (start [lobby, logs])))) = [lobby, logs, ch]
          \<and> ch_type ch = GuildText
          \<and> ch_overwrites ch = o_overwrites (ticket_opts sample_conf calm (press lobby))
          \<and> ch_parent ch = Some (JStr ''500''))
   \<and> handlersRole (sample_conf\<lparr>handlersRole := JStr ''701''\<rparr>) = JStr ''701''
   \<and> handler_overwrites (sample_conf\<lparr>handlersRole := JStr ''701''\<rparr>) =
       [\<lparr>ow_id = JStr ''701'', ow_allow = [ViewChannel, SendMessages], ow_deny = []\<rparr>]"
proof -
  let ?w = "acknowledged (start [lobby, logs])"
  let ?ia = "press lobby"
  have t: "\<not> ticket_of calm (i_user ?ia) lobby" "\<not> ticket_of calm (i_user ?ia) logs"
    by (simp_all add: ticket_of_def lobby_def logs_def press_def alice_def calm_def failing_def
        lower_char_def)
  then have h: "\<forall>c \<in> set (cache ?w). \<not> ticket_of calm (i_user ?ia) c"
    by (simp add: start_def)
  note a = ticket_permissions[OF h, where conf = sample_conf and t = "''general''"]
  note b = ticket_permissions[OF h, where conf = "sample_conf\<lparr>handlersRole := JStr ''701''\<rparr>"
      and t = "''general''"]
  have roles: "handlersRole sample_conf = JArr [JStr ''701'', JStr ''702'']"
    "truthy (ticketCategory sample_conf)" "ticketCategory sample_conf = JStr ''500''"
    "handlersRole (sample_conf\<lparr>handlersRole := JStr ''701''\<rparr>) = JStr ''701''"
    by (simp_all add: sample_conf_def)
  have ok: "outcome_of calm (trace ?w) (CreateChannel (ticket_opts sample_conf calm ?ia)) = Succeeds"
    by (simp add: calm_def failing_def)
  have w: "cache ?w = [lobby, logs]" "creations (trace ?w) = []"
    by (simp_all add: start_def)
  from a have one: "creations (trace (snd (createTicket sample_conf calm ?ia ''general'' ?w))) =
      creations (trace ?w) @ [ticket_opts sample_conf calm ?ia]"
    by blast
  from a have ows: "o_overwrites (ticket_opts sample_conf calm ?ia) =
     [\<lparr>ow_id = JStr (i_guild_id ?ia), ow_allow = [], ow_deny = [ViewChannel]\<rparr>,
      \<lparr>ow_id = JStr (user_id (i_user ?ia)), ow_allow = [ViewChannel, SendMessages], ow_deny = []\<rparr>]
     @ handler_overwrites sample_conf"
    by blast
  have hs: "handler_overwrites sample_conf =
      [\<lparr>ow_id = JStr ''701'', ow_allow = [ViewChannel, SendMessages], ow_deny = []\<rparr>,
       \<lparr>ow_id = JStr ''702'', ow_allow = [ViewChannel, SendMessages], ow_deny = []\<rparr>]"
    by (simp add: handler_overwrites_def sample_conf_def grant_def)
  from ows hs have full: "o_overwrites (ticket_opts sample_conf calm ?ia) =
       [\<lparr>ow_id = JStr ''1'', ow_allow = [], ow_deny = [ViewChannel]\<rparr>,
        \<lparr>ow_id = JStr ''1001'', ow_allow = [ViewChannel, SendMessages], ow_deny = []\<rparr>,
        \<lparr>ow_id = JStr ''701'', ow_allow = [ViewChannel, SendMessages], ow_deny = []\<rparr>,
        \<lparr>ow_id = JStr ''702'', ow_allow = [ViewChannel, SendMessages], ow_deny = []\<rparr>]"
    by (simp add: press_def alice_def)
  from a roles have par: "o_parent (ticket_opts sample_conf calm ?ia) = Some (JStr ''500'')"
    by simp
  from a ok have "\<exists>ch. cache (snd (createTicket sample_conf calm ?ia ''general'' ?w)) = cache ?w @ [ch]
             \<and> ch_type ch = GuildText
             \<and> ch_overwrites ch = o_overwrites (ticket_opts sample_conf calm ?ia)
             \<and> ch_parent ch = o_parent (ticket_opts sample_conf calm ?ia)"
    by blast
  with par w have got: "\<exists>ch. cache (snd (createTicket sample_conf calm ?ia ''general'' ?w)) = [lobby, logs, ch]
             \<and> ch_type ch = GuildText
             \<and> ch_overwrites ch = o_overwrites (ticket_opts sample_conf calm ?ia)
             \<and> ch_parent ch = Some (JStr ''500'')"
    by simp
  from b roles have single: "handler_overwrites (sample_conf\<lparr>handlersRole := JStr ''701''\<rparr>) =
       [\<lparr>ow_id = JStr ''701'', ow_allow = [ViewChannel, SendMessages], ow_deny = []\<rparr>]"
    by simp
  from one w have one': "creations (trace (snd (createTicket sample_conf calm ?ia ''general'' ?w))) =
      [ticket_opts sample_conf calm ?ia]"
    by simp
  from t roles ok one' full par got single show ?thesis by blast
qed

section \<open>The responder\<close>

lemma safeReply_trace:
  "trace (safeReply p n2 (safeReply p n1 w)) =
     (if replied w \<or> deferred w then trace w @ [EditReply n1, EditReply n2]
      else if outcome_of p (trace w) (Reply n1) = Succeeds then trace w @ [Reply n1, EditReply n2]
      else trace w @ [Reply n1, Reply n2])"
  by (auto simp add: safeReply_def editReply_def reply_def invoke_def split: prod.splits bool.splits)

lemma initial_replies_simps [simp]:
  "initial_replies [] = []"
  "initial_replies (Reply n # tr) = n # initial_replies tr"
  "initial_replies (EditReply n # tr) = initial_replies tr"
  "initial_replies (xs @ ys) = initial_replies xs @ initial_replies ys"
  by (simp_all add: initial_replies_def)

lemma edits_simps [simp]:
  "edits [] = []"
  "edits (Reply n # tr) = edits tr"
  "edits (EditReply n # tr) = n # edits tr"
  "edits (xs @ ys) = edits xs @ edits ys"
  by (simp_all add: edits_def)

text \<open>
  C5, as the code has it. Two calls of \<^verbatim>\<open>safeReply\<close> on an interaction that is neither
  replied nor deferred, the platform accepting the first reply, request one initial reply
  and then one edit. On an interaction already replied or deferred both calls request
  edits and no initial reply. When the platform refuses the first reply, the interaction
  stays unanswered and the second call requests an initial reply again.
\<close>

theorem safeReply_twice:
  "trace (safeReply p n2 (safeReply p n1 w)) =
     (if replied w \<or> deferred w then trace w @ [EditReply n1, EditReply n2]
      else if outcome_of p (trace w) (Reply n1) = Succeeds then trace w @ [Reply n1, EditReply n2]
      else trace w @ [Reply n1, Reply n2])
   \<and> initial_replies (trace (safeReply p n2 (safeReply p n1 w))) =
       initial_replies (trace w) @
       (if replied w \<or> deferred w then []
        else if outcome_of p (trace w) (Reply n1) = Succeeds then [n1] else [n1, n2])
   \<and> edits (trace (safeReply p n2 (safeReply p n1 w))) =
       edits (trace w) @
       (if replied w \<or> deferred w then [n1, n2]
        else if outcome_of p (trace w) (Reply n1) = Succeeds then [n2] else [])"
  by (simp add: safeReply_trace)

theorem safeReply_twice_witness:
  "trace (safeReply calm TicketError (safeReply calm GenericError (start []))) =
     [Reply GenericError, EditReply TicketError]
   \<and> initial_replies (trace (safeReply calm TicketError (safeReply calm GenericError (start [])))) =
     [GenericError]
   \<and> edits (trace (safeReply calm TicketError (safeReply calm GenericError (start [])))) =
     [TicketError]"
  using safeReply_twice[of calm TicketError GenericError "start []"]
  by (simp add: calm_def failing_def start_def)

text \<open>
  Two inputs at which two calls do not request one initial reply and one edit: a deferred
  interaction (two edits, no initial reply), and a new interaction whose first reply the
  platform refuses (two initial replies, no edit).
\<close>

theorem safeReply_twice_counterexample:
  "trace (safeReply calm TicketError (safeReply calm GenericError ((start [])\<lparr>deferred := True\<rparr>))) =
     [EditReply GenericError, EditReply TicketError]
   \<and> trace (safeReply (failing (\<lambda>c. c = Reply GenericError)) TicketError
        (safeReply (failing (\<lambda>c. c = Reply GenericError)) GenericError (start []))) =
     [Reply GenericError, Reply TicketError]"
  by (simp add: safeReply_def editReply_def reply_def invoke_def calm_def failing_def start_def)

section \<open>Failures while a ticket is created\<close>

lemma failing_ticket_opts: "ticket_opts conf (failing bad) ia = ticket_opts conf calm ia"
  by (simp add: ticket_opts_def calm_def failing_def)

lemma failing_intro_content:
  "intro_content sample_conf (failing bad) u = intro_content sample_conf calm u"
  by (simp add: intro_content_def sample_conf_def)

lemma failing_embed_built:
  "ticket_embed_built sample_conf (failing bad) alice ''general''"
  by (simp add: ticket_embed_built_def text_ok_def footer_arg_def color_arg_def or_else_def
      utf16_length_def sample_conf_def alice_def failing_def)

lemma deletions_failure [simp]:
  "deletions [if b then Reply TicketError else EditReply TicketError] = []"
  by simp

text \<open>
  C8, as the code has it. Let no channel of the cache pass the test of line 263, and let
  \<open>failure\<close> be the request that carries the generic failure notice: an initial reply when
  the interaction is neither replied nor deferred, an edit otherwise. If the creation
  fails, \<^verbatim>\<open>createTicket\<close> requests the creation and then \<open>failure\<close>, and the cache is
  unchanged. If the creation succeeds and the embed of lines 291 to 296 throws, it
  requests \<open>failure\<close> next and the new channel stays in the cache. If the embed builds
  and the introductory post fails, or the post succeeds and the log step throws because
  the log channel cannot be sent to, it requests \<open>failure\<close> after them and the new channel
  stays in the cache. If the log message is sent
  and the platform rejects it, nothing catches the rejection: on an acknowledged
  interaction the next and last request is the edit with the success notice. In no case
  does \<^verbatim>\<open>createTicket\<close> request the deletion of a channel.
\<close>

theorem creation_failure_reported:
  assumes none: "\<forall>c \<in> set (cache w). \<not> ticket_of p (i_user ia) c"
    and opts: "opts = ticket_opts conf p ia"
    and ch: "ch = new_channel conf p ia w"
    and post: "post = ChannelSend (ch_id ch) (Intro (intro_content conf p (i_user ia)) t)"
    and failure: "failure = (if \<not> replied w \<and> \<not> deferred w then Reply TicketError
                             else EditReply TicketError)"
    and after: "w' = snd (createTicket conf p ia t w)"
  shows "(outcome_of p (trace w) (CreateChannel opts) \<noteq> Succeeds \<longrightarrow>
            trace w' = trace w @ [CreateChannel opts, failure] \<and> cache w' = cache w)
     \<and> (outcome_of p (trace w) (CreateChannel opts) = Succeeds
          \<and> \<not> ticket_embed_built conf p (i_user ia) t \<longrightarrow>
            trace w' = trace w @ [CreateChannel opts, failure] \<and> cache w' = cache w @ [ch])
     \<and> (outcome_of p (trace w) (CreateChannel opts) = Succeeds
          \<and> ticket_embed_built conf p (i_user ia) t
          \<and> outcome_of p (trace w @ [CreateChannel opts]) post \<noteq> Succeeds \<longrightarrow>
            trace w' = trace w @ [CreateChannel opts, post, failure] \<and> cache w' = cache w @ [ch])
     \<and> (outcome_of p (trace w) (CreateChannel opts) = Succeeds
          \<and> ticket_embed_built conf p (i_user ia) t
          \<and> outcome_of p (trace w @ [CreateChannel opts]) post = Succeeds
          \<and> log_throws conf (cache w @ [ch]) \<longrightarrow>
            trace w' = trace w @ [CreateChannel opts, post, failure] \<and> cache w' = cache w @ [ch])
     \<and> (\<forall>lg. outcome_of p (trace w) (CreateChannel opts) = Succeeds
          \<and> ticket_embed_built conf p (i_user ia) t
          \<and> outcome_of p (trace w @ [CreateChannel opts]) post = Succeeds
          \<and> log_requests conf (cache w @ [ch]) (i_user ia) ch = [lg]
          \<and> outcome_of p (trace w @ [CreateChannel opts, post]) lg \<noteq> Succeeds
          \<and> (deferred w \<or> replied w) \<longrightarrow>
            trace w' = trace w @ [CreateChannel opts, post, lg, EditReply (TicketCreated (ch_id ch))]
            \<and> cache w' = cache w @ [ch] \<and> unhandled w' = unhandled w + 1)
     \<and> deletions (trace w') = deletions (trace w)"
proof -
  have absent: "find (ticket_of p (i_user ia)) (cache w) = None"
    using none by (simp add: find_None_iff)
  have id: "ch_id ch = fresh_id p (cache w)"
    by (simp add: ch new_channel_simps)
  let ?built = "ticket_embed_built conf p (i_user ia) t"
  let ?w2 = "w\<lparr>cache := cache w @ [ch], trace := trace w @ [CreateChannel opts, post]\<rparr>"
  have a: "trace w' = trace w @ [CreateChannel opts, failure] \<and> cache w' = cache w"
    if "outcome_of p (trace w) (CreateChannel opts) \<noteq> Succeeds"
    using createTicket_create_fails[OF absent, of conf t] that
    by (simp add: after opts failure createTicket_catch_trace createTicket_catch_cache)
  have a': "trace w' = trace w @ [CreateChannel opts, failure] \<and> cache w' = cache w @ [ch]"
    if "outcome_of p (trace w) (CreateChannel opts) = Succeeds" "\<not> ?built"
    using createTicket_embed_fails[OF absent, of conf t] that
    by (simp add: after opts ch[symmetric] failure createTicket_catch_trace
        createTicket_catch_cache)
  have b: "trace w' = trace w @ [CreateChannel opts, post, failure] \<and> cache w' = cache w @ [ch]"
    if "outcome_of p (trace w) (CreateChannel opts) = Succeeds" "?built"
      "outcome_of p (trace w @ [CreateChannel opts]) post \<noteq> Succeeds"
    using createTicket_intro_fails[OF absent, of conf t] that
    by (simp add: after opts post id ch[symmetric] failure createTicket_catch_trace
        createTicket_catch_cache)
  have c: "trace w' = trace w @ [CreateChannel opts, post, failure] \<and> cache w' = cache w @ [ch]"
    if "outcome_of p (trace w) (CreateChannel opts) = Succeeds" "?built"
      "outcome_of p (trace w @ [CreateChannel opts]) post = Succeeds"
      "log_throws conf (cache w @ [ch])"
    using createTicket_log_throws[OF absent, of conf t] that
    by (simp add: after opts post id ch[symmetric] failure createTicket_catch_trace
        createTicket_catch_cache)
  have run: "createTicket conf p ia t w =
      returned (editReply p (TicketCreated (ch_id ch)) (snd (log_new_ticket conf p (i_user ia) ch ?w2)))"
    if "outcome_of p (trace w) (CreateChannel opts) = Succeeds" "?built"
      "outcome_of p (trace w @ [CreateChannel opts]) post = Succeeds"
      "\<not> log_throws conf (cache w @ [ch])"
    using createTicket_after_log[OF absent, of conf t] that
    by (simp add: opts post id ch[symmetric])
  have d: "trace w' = trace w @ [CreateChannel opts, post, lg, EditReply (TicketCreated (ch_id ch))]
      \<and> cache w' = cache w @ [ch] \<and> unhandled w' = unhandled w + 1"
    if "outcome_of p (trace w) (CreateChannel opts) = Succeeds" "?built"
      "outcome_of p (trace w @ [CreateChannel opts]) post = Succeeds"
      "log_requests conf (cache w @ [ch]) (i_user ia) ch = [lg]"
      "outcome_of p (trace w @ [CreateChannel opts, post]) lg \<noteq> Succeeds"
      "deferred w \<or> replied w" for lg
  proof -
    from that(4) have "\<not> log_throws conf (cache w @ [ch])"
      by (rule log_requests_not_throws)
    from run[OF that(1,2,3) this] that(4,6)
      log_new_ticket_rejected[of conf ?w2 "i_user ia" ch lg p] that(5)
    show ?thesis
      by (simp add: after returned_def editReply_trace editReply_cache editReply_unhandled
          log_new_ticket_trace log_new_ticket_cache log_new_ticket_flags)
  qed
  have e: "deletions (trace w') = deletions (trace w)"
    using createTicket_shape(1)[OF absent, of conf t] by (auto simp add: after)
  from a a' b c d e show ?thesis by blast
qed

theorem creation_failure_reported_witness:
  "\<not> ticket_of (failing (\<lambda>c. c = CreateChannel (ticket_opts sample_conf calm (press lobby))))
       (i_user (press lobby)) lobby
   \<and> \<not> ticket_of (failing (\<lambda>c. c = CreateChannel (ticket_opts sample_conf calm (press lobby))))
       (i_user (press lobby)) logs
   \<and> ticket_opts sample_conf
       (failing (\<lambda>c. c = CreateChannel (ticket_opts sample_conf calm (press lobby)))) (press lobby)
      = ticket_opts sample_conf calm (press lobby)
   \<and> outcome_of (failing (\<lambda>c. c = CreateChannel (ticket_opts sample_conf calm (press lobby))))
        (trace (acknowledged (start [lobby, logs])))
        (CreateChannel (ticket_opts sample_conf calm (press lobby))) \<noteq> Succeeds
   \<and> trace (snd (createTicket sample_conf
        (failing (\<lambda>c. c = CreateChannel (ticket_opts sample_conf calm (press lobby))))
        (press lobby) ''general'' (acknowledged (start [lobby, logs]))))
      = [DeferReply, CreateChannel (ticket_opts sample_conf calm (press lobby)), EditReply TicketError]
   \<and> cache (snd (createTicket sample_conf
        (failing (\<lambda>c. c = CreateChannel (ticket_opts sample_conf calm (press lobby))))
        (press lobby) ''general'' (acknowledged (start [lobby, logs]))))
      = [lobby, logs]
   \<and> ticket_embed_built sample_conf
        (failing (\<lambda>c. c = ChannelSend ''900'' (Intro (intro_content sample_conf calm alice) ''general'')))
        (i_user (press lobby)) ''general''
   \<and> trace (snd (createTicket sample_conf
        (failing (\<lambda>c. c = ChannelSend ''900'' (Intro (intro_content sample_conf calm alice) ''general'')))
        (press lobby) ''general'' (acknowledged (start [lobby, logs]))))
      = [DeferReply, CreateChannel (ticket_opts sample_conf calm (press lobby)),
         ChannelSend ''900'' (Intro (intro_content sample_conf calm alice) ''general''),
         EditReply TicketError]
   \<and> map ch_name (cache (snd (createTicket sample_conf
        (failing (\<lambda>c. c = ChannelSend ''900'' (Intro (intro_content sample_conf calm alice) ''general'')))
        (press lobby) ''general'' (acknowledged (start [lobby, logs])))))
      = [''lobby'', ''logs'', ''ticket-alice'']
   \<and> deletions (trace (snd (createTicket sample_conf
        (failing (\<lambda>c. c = ChannelSend ''900'' (Intro (intro_content sample_conf calm alice) ''general'')))
        (press lobby) ''general'' (acknowledged (start [lobby, logs])))))
      = []"
proof -
  let ?w = "acknowledged (start [lobby, logs])"
  let ?ia = "press lobby"
  let ?opts = "ticket_opts sample_conf calm ?ia"
  let ?post = "ChannelSend ''900'' (Intro (intro_content sample_conf calm alice) ''general'')"
  let ?p1 = "failing (\<lambda>c. c = CreateChannel ?opts)"
  let ?p2 = "failing (\<lambda>c. c = ?post)"
  have t: "\<not> ticket_of (failing bad) (i_user ?ia) lobby"
    "\<not> ticket_of (failing bad) (i_user ?ia) logs" for bad
    by (simp_all add: ticket_of_def lobby_def logs_def press_def alice_def failing_def lower_char_def)
  then have h: "\<forall>c \<in> set (cache ?w). \<not> ticket_of (failing bad) (i_user ?ia) c" for bad
    by (simp add: start_def)
  have w: "trace ?w = [DeferReply]" "cache ?w = [lobby, logs]" "deferred ?w"
    by (simp_all add: start_def)
  have f1: "outcome_of ?p1 (trace ?w) (CreateChannel ?opts) \<noteq> Succeeds"
    by (simp add: failing_def)
  have f2: "outcome_of ?p2 (trace ?w) (CreateChannel ?opts) = Succeeds"
    "outcome_of ?p2 (trace ?w @ [CreateChannel ?opts]) ?post \<noteq> Succeeds"
    by (simp_all add: failing_def)
  have u: "i_user ?ia = alice" by (simp add: press_def)
  have id: "ch_id (new_channel sample_conf ?p2 ?ia ?w) = ''900''"
    by (simp add: new_channel_simps failing_def)
  have name: "ch_name (new_channel sample_conf ?p2 ?ia ?w) = ''ticket-alice''"
    by (simp add: new_channel_simps press_def alice_def failing_def lower_char_def)
  have built: "ticket_embed_built sample_conf ?p2 (i_user ?ia) ''general''"
    by (simp add: u failing_embed_built)
  have same: "ticket_opts sample_conf ?p1 ?ia = ?opts" "ticket_opts sample_conf ?p2 ?ia = ?opts"
    "intro_content sample_conf ?p2 alice = intro_content sample_conf calm alice"
    by (simp_all only: failing_ticket_opts failing_intro_content)
  note a = creation_failure_reported[OF h [of "\<lambda>c. c = CreateChannel ?opts"] refl refl refl refl refl,
      where conf = sample_conf and t = "''general''"]
  note b = creation_failure_reported[OF h [of "\<lambda>c. c = ?post"] refl refl refl refl refl,
      where conf = sample_conf and t = "''general''"]
  from a f1 w same have r1: "trace (snd (createTicket sample_conf ?p1 ?ia ''general'' ?w))
      = [DeferReply, CreateChannel ?opts, EditReply TicketError]
    \<and> cache (snd (createTicket sample_conf ?p1 ?ia ''general'' ?w)) = [lobby, logs]"
    by simp
  from b f2 w id u same built have r2: "trace (snd (createTicket sample_conf ?p2 ?ia ''general'' ?w))
      = [DeferReply, CreateChannel ?opts, ?post, EditReply TicketError]
    \<and> cache (snd (createTicket sample_conf ?p2 ?ia ''general'' ?w))
      = [lobby, logs, new_channel sample_conf ?p2 ?ia ?w]
    \<and> deletions (trace (snd (createTicket sample_conf ?p2 ?ia ''general'' ?w))) = []"
    by simp
  from t f1 r1 r2 name same built show ?thesis
    by (simp add: lobby_def logs_def)
qed

text \<open>
  A log message that the platform rejects: nothing catches the rejection, and the
  interaction is told that the ticket was created.
\<close>

theorem creation_failure_reported_counterexample:
  "outcome_of (failing (\<lambda>c. c = ChannelSend ''600'' (NewTicketLog ''Alice#0001'' ''900'')))
      [DeferReply, CreateChannel (ticket_opts sample_conf calm (press lobby)),
       ChannelSend ''900'' (Intro (intro_content sample_conf calm alice) ''general'')]
      (ChannelSend ''600'' (NewTicketLog ''Alice#0001'' ''900'')) = Fails
   \<and> trace (snd (on_ticket_button sample_conf
        (failing (\<lambda>c. c = ChannelSend ''600'' (NewTicketLog ''Alice#0001'' ''900'')))
        (press lobby) (start [lobby, logs])))
      = [DeferReply, CreateChannel (ticket_opts sample_conf calm (press lobby)),
         ChannelSend ''900'' (Intro (intro_content sample_conf calm alice) ''general''),
         ChannelSend ''600'' (NewTicketLog ''Alice#0001'' ''900''),
         EditReply (TicketCreated ''900'')]
   \<and> unhandled (snd (on_ticket_button sample_conf
        (failing (\<lambda>c. c = ChannelSend ''600'' (NewTicketLog ''Alice#0001'' ''900'')))
        (press lobby) (start [lobby, logs]))) = 1"
proof -
  let ?lg = "ChannelSend ''600'' (NewTicketLog ''Alice#0001'' ''900'')"
  let ?p = "failing (\<lambda>c. c = ?lg)"
  let ?w = "acknowledged (start [lobby, logs])"
  let ?ia = "press lobby"
  let ?opts = "ticket_opts sample_conf calm ?ia"
  let ?post = "ChannelSend ''900'' (Intro (intro_content sample_conf calm alice) ''general'')"
  let ?ch = "new_channel sample_conf ?p ?ia ?w"
  let ?w2 = "?w\<lparr>cache := cache ?w @ [?ch], trace := trace ?w @ [CreateChannel ?opts, ?post]\<rparr>"
  have absent: "find (ticket_of ?p (i_user ?ia)) (cache ?w) = None"
    by (simp add: start_def ticket_of_def lobby_def logs_def press_def alice_def
        failing_def lower_char_def)
  have built: "ticket_embed_built sample_conf ?p (i_user ?ia) ''general''"
    by (simp add: press_def failing_embed_built)
  have same: "ticket_opts sample_conf ?p ?ia = ?opts"
    "intro_content sample_conf ?p u = intro_content sample_conf calm u" for u
    by (simp_all only: failing_ticket_opts failing_intro_content)
  have u: "i_user ?ia = alice" "fresh_id ?p (cache ?w) = ''900''" "tag alice = ''Alice#0001''"
    by (simp_all add: press_def failing_def alice_def)
  have ok: "outcome_of ?p (trace ?w) (CreateChannel (ticket_opts sample_conf ?p ?ia)) = Succeeds"
    "outcome_of ?p (trace ?w @ [CreateChannel (ticket_opts sample_conf ?p ?ia)])
       (ChannelSend (fresh_id ?p (cache ?w)) (Intro (intro_content sample_conf ?p (i_user ?ia)) ''general''))
     = Succeeds"
    by (simp_all add: failing_def)
  have lg: "log_requests sample_conf (cache ?w @ [?ch]) alice ?ch = [?lg]"
    by (simp add: log_requests_def sample_conf_def cache_get_def start_def lobby_def logs_def
        has_send_def new_channel_simps alice_def failing_def)
  then have quiet: "\<not> log_throws sample_conf (cache ?w @ [?ch])"
    by (rule log_requests_not_throws)
  have rejected: "outcome_of ?p (trace ?w2) ?lg \<noteq> Succeeds"
    by (simp add: failing_def)
  have dfr: "deferReply ?p (start [lobby, logs]) = (True, ?w)"
    by (rule deferReply_ok) (simp_all add: start_def failing_def)
  from createTicket_after_log[OF absent ok(1) built ok(2) quiet]
  have run: "createTicket sample_conf ?p ?ia ''general'' ?w =
      returned (editReply ?p (TicketCreated ''900'') (snd (log_new_ticket sample_conf ?p alice ?ch ?w2)))"
    by (simp only: u same)
  let ?w3 = "snd (log_new_ticket sample_conf ?p alice ?ch ?w2)"
  have u3: "unhandled ?w3 = unhandled ?w2 + 1"
    by (rule log_new_ticket_rejected[of _ _ _ _ ?lg]) (use lg rejected in simp_all)
  have t3: "trace ?w3 = trace ?w2 @ [?lg]"
    using lg by (simp add: log_new_ticket_trace)
  have f3: "deferred ?w3"
    by (simp add: log_new_ticket_flags)
  have button: "on_ticket_button sample_conf ?p ?ia (start [lobby, logs]) =
      returned (editReply ?p (TicketCreated ''900'') ?w3)"
    by (simp only: on_ticket_button_def dfr run prod.case bool.case)
  have tr: "trace (snd (returned (editReply ?p (TicketCreated ''900'') ?w3))) =
      trace ?w2 @ [?lg, EditReply (TicketCreated ''900'')]"
    using f3 t3 by (simp add: returned_def editReply_trace)
  have un: "unhandled (snd (returned (editReply ?p (TicketCreated ''900'') ?w3))) = unhandled ?w2 + 1"
    using u3 by (simp add: returned_def editReply_unhandled)
  have w2: "trace ?w2 = [DeferReply, CreateChannel ?opts, ?post]" "unhandled ?w2 = 0"
    by (simp_all add: start_def acknowledged_def)
  have "outcome_of ?p [DeferReply, CreateChannel ?opts, ?post] ?lg = Fails"
    by (simp add: failing_def)
  with tr un w2 show ?thesis
    by (simp only: button) simp
qed

section \<open>Closing a ticket\<close>

lemma delete_quietly_trace:
  "trace (delete_quietly p ch w) = trace w @ [DeleteChannel (ch_id ch)]"
  by (simp add: delete_quietly_def invoke_def split: bool.splits)

lemma forward_trace:
  "\<exists>sent. trace (snd (forward conf p ch closer f w)) = trace w @ sent \<and> deletions sent = []"
  by (simp add: forward_def invoke_def split: option.splits bool.splits)

lemma close_timer_trace:
  "\<exists>rest ds. trace (snd (close_timer conf p ch closer w)) = trace w @ rest
     \<and> deletions rest = ch_id ch # ds
     \<and> ((\<forall>h. outcome_of p h (UnlinkFile (''transcript-'' @ ch_id ch @ ''.txt'')) = Succeeds)
          \<longrightarrow> ds = [])"
proof (cases "fetch p ch w")
  case (Pair got w1)
  have t1: "trace w1 = trace w @ [FetchMessages (ch_id ch) 100]"
    using Pair by (auto simp add: fetch_def invoke_def split: bool.splits)
  show ?thesis
  proof (cases got)
    case None
    with Pair t1 show ?thesis
      by (simp add: close_timer_def delete_quietly_trace)
  next
    case (Some msgs)
    let ?f = "''transcript-'' @ ch_id ch @ ''.txt''"
    let ?wr = "WriteFile ?f (transcript p msgs)"
    let ?w2 = "w1\<lparr>trace := trace w1 @ [?wr]\<rparr>"
    show ?thesis
    proof (cases "outcome_of p (trace w1) ?wr = Succeeds")
      case False
      with Pair Some t1 show ?thesis
        by (simp add: close_timer_def Let_def invoke_def delete_quietly_trace)
    next
      case written: True
      obtain ok w3 where fw: "forward conf p ch closer ?f ?w2 = (ok, w3)"
        by (cases "forward conf p ch closer ?f ?w2")
      from forward_trace[of conf p ch closer ?f ?w2] fw
      obtain sent where t3: "trace w3 = trace ?w2 @ sent" "deletions sent = []"
        by auto
      show ?thesis
      proof (cases ok)
        case False
        with Pair Some written fw t1 t3 show ?thesis
          by (simp add: close_timer_def Let_def invoke_def delete_quietly_trace)
      next
        case True
        let ?w4 = "delete_quietly p ch w3"
        have t4: "trace ?w4 = trace w @ [FetchMessages (ch_id ch) 100, ?wr] @ sent @ [DeleteChannel (ch_id ch)]"
          using t1 t3 by (simp add: delete_quietly_trace)
        show ?thesis
        proof (cases "outcome_of p (trace ?w4) (UnlinkFile ?f) = Succeeds")
          case unlinked: True
          with Pair Some written fw True t4 t3(2) show ?thesis
            by (simp add: close_timer_def Let_def invoke_def)
        next
          case False
          then have "\<not> (\<forall>h. outcome_of p h (UnlinkFile ?f) = Succeeds)" by blast
          with False Pair Some written fw True t4 t3(2) show ?thesis
            by (simp add: close_timer_def Let_def invoke_def delete_quietly_trace)
        qed
      qed
    qed
  qed
qed

lemma close_handler_ok:
  assumes "\<not> deferred w" "\<not> replied w" "outcome_of p (trace w) DeferReply = Succeeds"
  shows "trace (snd (on_close_ticket p ia w)) = trace w @ [DeferReply, EditReply ClosingNotice]"
    and "timers (snd (on_close_ticket p ia w)) =
          timers w @ [(5000, CloseTask (i_channel ia) (tag (i_user ia)))]"
    and "cache (snd (on_close_ticket p ia w)) = cache w"
  using assms
  by (simp_all add: on_close_ticket_def deferReply_ok Let_def editReply_def invoke_def
      split: prod.splits bool.splits)

lemma close_handler_failed:
  assumes "\<not> deferred w" "\<not> replied w" "outcome_of p (trace w) DeferReply \<noteq> Succeeds"
  shows "trace (snd (on_close_ticket p ia w)) = trace w @ [DeferReply, Reply GenericError]"
    and "timers (snd (on_close_ticket p ia w)) = timers w"
  using assms
  by (simp_all add: on_close_ticket_def deferReply_failed handler_catch_def reply_def invoke_def Let_def
      split: prod.splits bool.splits)


text \<open>
  C3, as the code has it. Take a press of the close button on a new interaction, with no
  timer pending, and then the firing of the timer. If the platform accepts the deferral,
  the handler requests the deferral and the edit with the closing notice, nothing else,
  and sets one timer of 5000 milliseconds for the channel; every request of the callback
  comes after these two; the callback requests the deletion of the channel at least once,
  whatever the outcome of the fetch, of the file write and of the forwarding to the log
  channel; and it requests it exactly once when removing the transcript file does not
  throw. If the platform refuses the deferral, the handler sends the generic failure
  notice, sets no timer, and nothing is deleted.
\<close>

theorem close_ticket_deletes:
  assumes fresh: "\<not> deferred w" "\<not> replied w"
    and idle: "timers w = []"
    and closed: "w1 = snd (on_close_ticket p ia w)"
    and fired: "w2 = snd (fire conf p w1)"
  shows "(outcome_of p (trace w) DeferReply = Succeeds \<longrightarrow>
            trace w1 = trace w @ [DeferReply, EditReply ClosingNotice]
          \<and> timers w1 = [(5000, CloseTask (i_channel ia) (tag (i_user ia)))]
          \<and> (\<exists>rest ds. trace w2 = trace w1 @ rest
                \<and> deletions rest = ch_id (i_channel ia) # ds
                \<and> ((\<forall>h. outcome_of p h
                         (UnlinkFile (''transcript-'' @ ch_id (i_channel ia) @ ''.txt'')) = Succeeds)
                     \<longrightarrow> ds = [])))
     \<and> (outcome_of p (trace w) DeferReply \<noteq> Succeeds \<longrightarrow>
            trace w1 = trace w @ [DeferReply, Reply GenericError] \<and> timers w1 = [] \<and> w2 = w1)"
proof (intro conjI impI)
  assume ok: "outcome_of p (trace w) DeferReply = Succeeds"
  from close_handler_ok[OF fresh ok, of ia] idle
  show t1: "trace w1 = trace w @ [DeferReply, EditReply ClosingNotice]"
    and tm: "timers w1 = [(5000, CloseTask (i_channel ia) (tag (i_user ia)))]"
    by (simp_all add: closed)
  from tm have "w2 = snd (close_timer conf p (i_channel ia) (tag (i_user ia)) (w1\<lparr>timers := []\<rparr>))"
    by (simp add: fired fire_def run_task_def)
  with close_timer_trace[of conf p "i_channel ia" "tag (i_user ia)" "w1\<lparr>timers := []\<rparr>"]
  show "\<exists>rest ds. trace w2 = trace w1 @ rest
      \<and> deletions rest = ch_id (i_channel ia) # ds
      \<and> ((\<forall>h. outcome_of p h
               (UnlinkFile (''transcript-'' @ ch_id (i_channel ia) @ ''.txt'')) = Succeeds)
           \<longrightarrow> ds = [])"
    by simp
next
  assume no: "outcome_of p (trace w) DeferReply \<noteq> Succeeds"
  from close_handler_failed[OF fresh no, of ia] idle
  show "trace w1 = trace w @ [DeferReply, Reply GenericError]" and tm: "timers w1 = []"
    by (simp_all add: closed)
  from tm show "w2 = w1"
    by (simp add: fired fire_def)
qed


theorem close_ticket_deletes_witness:
  "\<not> deferred (start [alice_ticket, logs]) \<and> \<not> replied (start [alice_ticket, logs])
   \<and> timers (start [alice_ticket, logs]) = []
   \<and> outcome_of calm (trace (start [alice_ticket, logs])) DeferReply = Succeeds
   \<and> (\<forall>h. outcome_of calm h (UnlinkFile (''transcript-'' @ ch_id alice_ticket @ ''.txt'')) = Succeeds)
   \<and> trace (snd (on_close_ticket calm (press alice_ticket) (start [alice_ticket, logs]))) =
       [DeferReply, EditReply ClosingNotice]
   \<and> timers (snd (on_close_ticket calm (press alice_ticket) (start [alice_ticket, logs]))) =
       [(5000, CloseTask alice_ticket ''Alice#0001'')]
   \<and> (\<exists>rest. trace (snd (fire sample_conf calm
                 (snd (on_close_ticket calm (press alice_ticket) (start [alice_ticket, logs]))))) =
               [DeferReply, EditReply ClosingNotice] @ rest
             \<and> deletions rest = [''777''])"
proof -
  let ?w = "start [alice_ticket, logs]"
  let ?ia = "press alice_ticket"
  have fresh: "\<not> deferred ?w" "\<not> replied ?w" and idle: "timers ?w = []"
    and empty: "trace ?w = []"
    by (simp_all add: start_def)
  have ok: "outcome_of calm (trace ?w) DeferReply = Succeeds"
    and unlink: "\<forall>h. outcome_of calm h (UnlinkFile (''transcript-'' @ ch_id alice_ticket @ ''.txt''))
        = Succeeds"
    by (simp_all add: calm_def failing_def)
  have ia: "i_channel ?ia = alice_ticket" "tag (i_user ?ia) = ''Alice#0001''"
    "ch_id alice_ticket = ''777''"
    by (simp_all add: press_def alice_def alice_ticket_def)
  from close_ticket_deletes[OF fresh idle refl refl, of calm ?ia sample_conf] ok unlink
  have "trace (snd (on_close_ticket calm ?ia ?w)) = trace ?w @ [DeferReply, EditReply ClosingNotice]
      \<and> timers (snd (on_close_ticket calm ?ia ?w)) =
          [(5000, CloseTask (i_channel ?ia) (tag (i_user ?ia)))]
      \<and> (\<exists>rest. trace (snd (fire sample_conf calm (snd (on_close_ticket calm ?ia ?w)))) =
            trace (snd (on_close_ticket calm ?ia ?w)) @ rest
          \<and> deletions rest = [ch_id (i_channel ?ia)])"
    unfolding ia by blast
  with fresh idle ok unlink show ?thesis
    by (auto simp add: ia empty)
qed

text \<open>
  Two presses at which the deletion is not requested exactly once: one whose transcript
  file cannot be removed (the deletion is requested twice), and one whose deferral the
  platform refuses (no closing notice, no timer, no deletion).
\<close>

theorem close_ticket_deletes_counterexample:
  "deletions (trace (snd (fire sample_conf (failing (\<lambda>c. c = UnlinkFile ''transcript-777.txt''))
      (snd (on_close_ticket (failing (\<lambda>c. c = UnlinkFile ''transcript-777.txt''))
             (press alice_ticket) (start [alice_ticket, logs])))))) = [''777'', ''777'']
   \<and> trace (snd (on_close_ticket (failing (\<lambda>c. c = DeferReply))
        (press alice_ticket) (start [alice_ticket, logs]))) = [DeferReply, Reply GenericError]
   \<and> timers (snd (on_close_ticket (failing (\<lambda>c. c = DeferReply))
        (press alice_ticket) (start [alice_ticket, logs]))) = []
   \<and> deletions (trace (snd (fire sample_conf (failing (\<lambda>c. c = DeferReply))
      (snd (on_close_ticket (failing (\<lambda>c. c = DeferReply))
             (press alice_ticket) (start [alice_ticket, logs])))))) = []"
  by (simp add: fire_def run_task_def close_timer_def fetch_def forward_def delete_quietly_def
      on_close_ticket_def deferReply_def editReply_def reply_def handler_catch_def invoke_def
      Let_def failing_def start_def press_def alice_def alice_ticket_def logs_def sample_conf_def
      cache_get_def has_send_def)


section \<open>The gate in front of the privileged operations\<close>

lemma refused_allow: "refused conf manage uid = (\<not> allow conf uid manage)"
  by (auto simp add: refused_def allow_def)

lemma setup_refused:
  assumes "refused conf (has_manage ia) (user_id (i_user ia))" "\<not> deferred w" "\<not> replied w"
  shows "trace (snd (on_setup_ticket conf p ia w)) =
      trace w @ Reply DeniedSetup #
        (if outcome_of p (trace w) (Reply DeniedSetup) = Succeeds then [] else [Reply GenericError])"
    and "trace (snd (on_verify_setup conf p ia w)) =
      trace w @ Reply DeniedVerify #
        (if outcome_of p (trace w) (Reply DeniedVerify) = Succeeds then [] else [Reply GenericError])"
  using assms
  by (simp_all add: on_setup_ticket_def on_verify_setup_def reply_def handler_catch_def invoke_def
      Let_def split: prod.splits bool.splits)

lemma split_from_nonempty: "split_from b s \<noteq> []"
  by (induction s arbitrary: b) (auto split: list.splits)

lemma split_spaces_nonempty: "split_spaces s \<noteq> []"
  by (simp add: split_spaces_def split_from_nonempty)

lemma message_refused:
  "\<not> allow conf (author_id m) (member_manage m) \<Longrightarrow> on_message conf p m w = (Resolved, w)"
proof -
  assume no: "\<not> allow conf (author_id m) (member_manage m)"
  obtain first args where
    "split_spaces (trim (drop (length (if prefix conf = [] then ''!'' else prefix conf)) (m_content m)))
       = first # args"
    using split_spaces_nonempty by (meson list.exhaust)
  with no show ?thesis
    by (simp add: on_message_def Let_def)
qed

text \<open>
  C9, as the code has it. Let the caller be neither in the admin list nor hold the manage
  permission. The two set-up commands, on a new interaction, request the initial reply
  with the denial and then nothing but the generic failure reply when the denial was
  refused by the platform; no panel is posted. A prefix command of such a caller, whatever
  the message, changes nothing and requests nothing: the command is not performed, and no
  denial is sent either.
\<close>

theorem unprivileged_refused:
  assumes "\<not> allow conf uid manage"
  shows "(user_id (i_user ia) = uid \<and> has_manage ia = manage \<and> \<not> deferred w \<and> \<not> replied w \<longrightarrow>
            trace (snd (on_setup_ticket conf p ia w)) =
              trace w @ Reply DeniedSetup #
                (if outcome_of p (trace w) (Reply DeniedSetup) = Succeeds then []
                 else [Reply GenericError])
          \<and> trace (snd (on_verify_setup conf p ia w)) =
              trace w @ Reply DeniedVerify #
                (if outcome_of p (trace w) (Reply DeniedVerify) = Succeeds then []
                 else [Reply GenericError]))
     \<and> (author_id m = uid \<and> member_manage m = manage \<longrightarrow> on_message conf p m w = (Resolved, w))"
  using assms setup_refused[of conf ia w p] message_refused[of conf m p w]
  by (simp add: refused_allow)

theorem unprivileged_refused_witness:
  "\<not> allow sample_conf ''1001'' False
   \<and> user_id (i_user (press lobby)) = ''1001'' \<and> has_manage (press lobby) = False
   \<and> \<not> deferred (start [lobby]) \<and> \<not> replied (start [lobby])
   \<and> trace (snd (on_setup_ticket sample_conf calm (press lobby) (start [lobby]))) = [Reply DeniedSetup]
   \<and> trace (snd (on_verify_setup sample_conf calm (press lobby) (start [lobby]))) = [Reply DeniedVerify]
   \<and> author_id (say ''1001'' False ''!kick'') = ''1001''
   \<and> member_manage (say ''1001'' False ''!kick'') = False
   \<and> on_message sample_conf calm (say ''1001'' False ''!kick'') (start [lobby]) = (Resolved, start [lobby])"
proof -
  have h: "\<not> allow sample_conf ''1001'' False"
    by (simp add: allow_def isAdmin_def sample_conf_def)
  have c: "user_id (i_user (press lobby)) = ''1001''" "has_manage (press lobby) = False"
    "\<not> deferred (start [lobby])" "\<not> replied (start [lobby])" "trace (start [lobby]) = []"
    "author_id (say ''1001'' False ''!kick'') = ''1001''"
    "member_manage (say ''1001'' False ''!kick'') = False"
    "\<And>n. outcome_of calm [] (Reply n) = Succeeds"
    by (simp_all add: press_def alice_def start_def say_def calm_def failing_def)
  from unprivileged_refused[OF h, of "press lobby" "start [lobby]" calm "say ''1001'' False ''!kick''"] h c
  show ?thesis by simp
qed

text \<open>A member who is not privileged types the clear command: nothing is sent at all.\<close>

theorem unprivileged_refused_counterexample:
  "\<not> allow sample_conf ''1001'' False
   \<and> on_message sample_conf calm (say ''1001'' False ''!clear 3'') (start [lobby]) = (Resolved, start [lobby])
   \<and> trace (snd (on_message sample_conf calm (say ''1001'' False ''!clear 3'') (start [lobby]))) = []"
proof -
  have h: "\<not> allow sample_conf ''1001'' False"
    by (simp add: allow_def isAdmin_def sample_conf_def)
  then have "on_message sample_conf calm (say ''1001'' False ''!clear 3'') (start [lobby])
      = (Resolved, start [lobby])"
    by (intro message_refused) (simp add: say_def)
  with h show ?thesis by (simp add: start_def)
qed

section \<open>The clear command\<close>

lemma clear_cmd_trace:
  "trace (snd (clear_cmd p m args w)) =
     trace w @ [BulkDelete (m_channel m) (js_min (clear_amount p args) (Finite 100)),
                ChannelSend (m_channel m) (Cleared (clear_amount p args))]"
  by (simp add: clear_cmd_def invoke_def Let_def split: prod.splits bool.splits)

lemma clear_cmd_timer:
  "outcome_of p (trace w @ [BulkDelete (m_channel m) (js_min (clear_amount p args) (Finite 100))])
      (ChannelSend (m_channel m) (Cleared (clear_amount p args))) = Succeeds \<Longrightarrow>
   timers (snd (clear_cmd p m args w)) = timers w @ [(3000, DeleteConfirmation)]"
  by (simp add: clear_cmd_def invoke_def Let_def)

lemma clear_amount_number: "clear_amount p args \<noteq> NaN"
  by (simp add: clear_amount_def split: list.splits number.splits)

lemma js_min_hundred: "a \<noteq> NaN \<Longrightarrow> js_le (js_min a (Finite 100)) (Finite 100)"
  by (cases a) simp_all

lemma bit_length_eq: "2 ^ k \<le> n \<Longrightarrow> n < 2 ^ Suc k \<Longrightarrow> bit_length n = Suc k"
proof (induction k arbitrary: n)
  case 0
  then have "n = 1" by simp
  then show ?case by (simp add: bit_length.simps)
next
  case (Suc k)
  then have "2 ^ k \<le> n div 2" "n div 2 < 2 ^ Suc k" by auto
  from Suc.IH[OF this] Suc.prems show ?case
    by (subst bit_length.simps) auto
qed

lemma bit_length_example: "bit_length 9007199254740993 = 54"
  using bit_length_eq[of 53 9007199254740993] by simp

lemma to_double_example: "to_double 9007199254740993 = Finite 9007199254740992"
  by (simp add: to_double_def bit_length_example Let_def)

text \<open>
  C10, as the code has it. Let a message in a guild, not from a bot, start with the prefix,
  let the first word after the prefix be \<^verbatim>\<open>clear\<close> once lowercased, and let the author pass
  the gate. Then the handler requests the bulk deletion of the smaller of the amount and
  100, which is at most 100, and then the confirmation that reports the amount itself, not
  the smaller of the two. The amount is 5 when there is no argument, when the first
  argument does not start, after white space and a sign, with a digit, and when the
  integer read from it is 0. It is the integer read when that is not 0 and at most \<open>2^53\<close> in
  absolute value. Beyond \<open>2^53\<close> it is the double that the run time puts in the place of the
  integer read (and 5 should that be 0 or NaN).
\<close>

theorem clear_command:
  assumes "in_guild m" and "\<not> author_bot m"
    and "pre = (if prefix conf = [] then ''!'' else prefix conf)"
    and "startsWith (m_content m) pre"
    and "split_spaces (trim (drop (length pre) (m_content m))) = first # args"
    and "toLowerCase p first = ''clear''"
    and "allow conf (author_id m) (member_manage m)"
  shows "trace (snd (on_message conf p m w)) =
       trace w @ [BulkDelete (m_channel m) (js_min (clear_amount p args) (Finite 100)),
                  ChannelSend (m_channel m) (Cleared (clear_amount p args))]
     \<and> js_le (js_min (clear_amount p args) (Finite 100)) (Finite 100)
     \<and> (args = [] \<longrightarrow> clear_amount p args = Finite 5)
     \<and> (\<forall>a rest. args = a # rest \<and> read_integer a = None \<longrightarrow> clear_amount p args = Finite 5)
     \<and> (\<forall>a rest. args = a # rest \<and> read_integer a = Some 0 \<longrightarrow> clear_amount p args = Finite 5)
     \<and> (\<forall>a rest n. args = a # rest \<and> read_integer a = Some n \<and> n \<noteq> 0 \<and> \<bar>n\<bar> \<le> 2 ^ 53 \<longrightarrow>
          clear_amount p args = Finite n)
     \<and> (\<forall>a rest n. args = a # rest \<and> read_integer a = Some n \<and> 2 ^ 53 < \<bar>n\<bar> \<longrightarrow>
          clear_amount p args =
            (case nearest_double p n of
               NaN \<Rightarrow> Finite 5
             | Finite k \<Rightarrow> if k = 0 then Finite 5 else Finite k
             | PosInfinity \<Rightarrow> PosInfinity
             | NegInfinity \<Rightarrow> NegInfinity))"
proof -
  from assms have "on_message conf p m w = clear_cmd p m args w"
    by (simp add: on_message_def Let_def)
  then have run: "trace (snd (on_message conf p m w)) =
       trace w @ [BulkDelete (m_channel m) (js_min (clear_amount p args) (Finite 100)),
                  ChannelSend (m_channel m) (Cleared (clear_amount p args))]"
    by (simp add: clear_cmd_trace)
  have bound: "js_le (js_min (clear_amount p args) (Finite 100)) (Finite 100)"
    by (rule js_min_hundred) (rule clear_amount_number)
  have amounts: "(args = [] \<longrightarrow> clear_amount p args = Finite 5)"
    "(\<forall>a rest. args = a # rest \<and> read_integer a = None \<longrightarrow> clear_amount p args = Finite 5)"
    "(\<forall>a rest. args = a # rest \<and> read_integer a = Some 0 \<longrightarrow> clear_amount p args = Finite 5)"
    "(\<forall>a rest n. args = a # rest \<and> read_integer a = Some n \<and> n \<noteq> 0 \<and> \<bar>n\<bar> \<le> 2 ^ 53 \<longrightarrow>
          clear_amount p args = Finite n)"
    by (simp_all add: clear_amount_def parseInt_def)
  have large: "(\<forall>a rest n. args = a # rest \<and> read_integer a = Some n \<and> 2 ^ 53 < \<bar>n\<bar> \<longrightarrow>
          clear_amount p args =
            (case nearest_double p n of
               NaN \<Rightarrow> Finite 5
             | Finite k \<Rightarrow> if k = 0 then Finite 5 else Finite k
             | PosInfinity \<Rightarrow> PosInfinity
             | NegInfinity \<Rightarrow> NegInfinity))"
    by (simp add: clear_amount_def parseInt_def)
  from run bound amounts large show ?thesis by (simp only: simp_thms)
qed

theorem clear_command_witness:
  "in_guild (say ''42'' False ''!Clear 250'') \<and> \<not> author_bot (say ''42'' False ''!Clear 250'')
   \<and> startsWith (m_content (say ''42'' False ''!Clear 250'')) ''!''
   \<and> split_spaces (trim (drop (length ''!'') (m_content (say ''42'' False ''!Clear 250''))))
       = [''Clear'', ''250'']
   \<and> toLowerCase calm ''Clear'' = ''clear''
   \<and> allow sample_conf (author_id (say ''42'' False ''!Clear 250''))
        (member_manage (say ''42'' False ''!Clear 250''))
   \<and> read_integer ''250'' = Some 250
   \<and> trace (snd (on_message sample_conf calm (say ''42'' False ''!Clear 250'') (start [lobby]))) =
       [BulkDelete ''300'' (Finite 100), ChannelSend ''300'' (Cleared (Finite 250))]
   \<and> split_spaces (trim (drop (length ''!'') (m_content (say ''42'' False ''!clear x'')))) = [''clear'', ''x'']
   \<and> read_integer ''x'' = None
   \<and> trace (snd (on_message sample_conf calm (say ''42'' False ''!clear x'') (start [lobby]))) =
       [BulkDelete ''300'' (Finite 5), ChannelSend ''300'' (Cleared (Finite 5))]
   \<and> split_spaces (trim (drop (length ''!'') (m_content (say ''42'' False ''!clear'')))) = [''clear'']
   \<and> trace (snd (on_message sample_conf calm (say ''42'' False ''!clear'') (start [lobby]))) =
       [BulkDelete ''300'' (Finite 5), ChannelSend ''300'' (Cleared (Finite 5))]
   \<and> split_spaces (trim (drop (length ''!'')
         (m_content (say ''42'' False (''!clear '' @ [CHR 0xC2, CHR 0xA0] @ ''7'')))))
       = [''clear'', [CHR 0xC2, CHR 0xA0] @ ''7'']
   \<and> read_integer ([CHR 0xC2, CHR 0xA0] @ ''7'') = Some 7
   \<and> trace (snd (on_message sample_conf calm
         (say ''42'' False (''!clear '' @ [CHR 0xC2, CHR 0xA0] @ ''7'')) (start [lobby]))) =
       [BulkDelete ''300'' (Finite 7), ChannelSend ''300'' (Cleared (Finite 7))]"
proof -
  let ?m = "say ''42'' False ''!Clear 250''"
  let ?x = "say ''42'' False ''!clear x''"
  let ?e = "say ''42'' False ''!clear''"
  let ?n = "say ''42'' False (''!clear '' @ [CHR 0xC2, CHR 0xA0] @ ''7'')"
  have pre: "''!'' = (if prefix sample_conf = [] then ''!'' else prefix sample_conf)"
    by (simp add: sample_conf_def)
  have g: "in_guild ?m" "\<not> author_bot ?m" "in_guild ?x" "\<not> author_bot ?x" "in_guild ?e" "\<not> author_bot ?e"
    "in_guild ?n" "\<not> author_bot ?n"
    "m_channel ?m = ''300''" "m_channel ?x = ''300''" "m_channel ?e = ''300''" "m_channel ?n = ''300''"
    by (simp_all add: say_def)
  have st: "startsWith (m_content ?m) ''!''" "startsWith (m_content ?x) ''!''"
    "startsWith (m_content ?e) ''!''" "startsWith (m_content ?n) ''!''"
    by (simp_all add: say_def startsWith_def)
  have sp: "split_spaces (trim (drop (length ''!'') (m_content ?m))) = [''Clear'', ''250'']"
    "split_spaces (trim (drop (length ''!'') (m_content ?x))) = [''clear'', ''x'']"
    "split_spaces (trim (drop (length ''!'') (m_content ?e))) = [''clear'']"
    "split_spaces (trim (drop (length ''!'') (m_content ?n))) = [''clear'', [CHR 0xC2, CHR 0xA0] @ ''7'']"
    by (simp_all add: say_def split_spaces_def trim_def ws1_def ws2_def ws3_def)
  have lc: "toLowerCase calm ''Clear'' = ''clear''" "toLowerCase calm ''clear'' = ''clear''"
    by (simp_all add: calm_def failing_def lower_char_def)
  have al: "allow sample_conf (author_id ?m) (member_manage ?m)"
    "allow sample_conf (author_id ?x) (member_manage ?x)"
    "allow sample_conf (author_id ?e) (member_manage ?e)"
    "allow sample_conf (author_id ?n) (member_manage ?n)"
    by (simp_all add: allow_def isAdmin_def sample_conf_def say_def)
  have pi: "read_integer ''250'' = Some 250" "read_integer ''x'' = None"
    "read_integer ([CHR 0xC2, CHR 0xA0] @ ''7'') = Some 7"
    by (simp_all add: read_integer_def read_sign_def read_radix_def ws1_def ws2_def ws3_def
        is_digit_of_def digit_value_def digits_value_def)
  have empty: "trace (start [lobby]) = []" by (simp add: start_def)
  note a = clear_command[OF g(1,2) pre st(1) sp(1) lc(1) al(1), of "start [lobby]"]
  note b = clear_command[OF g(3,4) pre st(2) sp(2) lc(2) al(2), of "start [lobby]"]
  note c = clear_command[OF g(5,6) pre st(3) sp(3) lc(2) al(3), of "start [lobby]"]
  note d = clear_command[OF g(7,8) pre st(4) sp(4) lc(2) al(4), of "start [lobby]"]
  from a pi(1) have ra: "trace (snd (on_message sample_conf calm ?m (start [lobby]))) =
       [BulkDelete ''300'' (Finite 100), ChannelSend ''300'' (Cleared (Finite 250))]"
    by (simp add: empty g)
  from b pi(2) have rb: "trace (snd (on_message sample_conf calm ?x (start [lobby]))) =
       [BulkDelete ''300'' (Finite 5), ChannelSend ''300'' (Cleared (Finite 5))]"
    by (simp add: empty g)
  from c have rc: "trace (snd (on_message sample_conf calm ?e (start [lobby]))) =
       [BulkDelete ''300'' (Finite 5), ChannelSend ''300'' (Cleared (Finite 5))]"
    by (simp add: empty g)
  from d pi(3) have rd: "trace (snd (on_message sample_conf calm ?n (start [lobby]))) =
       [BulkDelete ''300'' (Finite 7), ChannelSend ''300'' (Cleared (Finite 7))]"
    by (simp add: empty say_def)
  from g st sp lc al pi ra rb rc rd show ?thesis by simp
qed

text \<open>
  The amount in the confirmation is not always the one that was asked for. Asked to clear
  0 messages, the handler deletes 5 and reports 5. Asked to clear 9007199254740993, on a
  run time that rounds to the nearest double, it reports 9007199254740992.
\<close>

theorem clear_command_counterexample:
  "allow sample_conf (author_id (say ''42'' False ''!clear 0''))
        (member_manage (say ''42'' False ''!clear 0''))
   \<and> split_spaces (trim (drop (length ''!'') (m_content (say ''42'' False ''!clear 0''))))
       = [''clear'', ''0'']
   \<and> read_integer ''0'' = Some 0
   \<and> trace (snd (on_message sample_conf calm (say ''42'' False ''!clear 0'') (start [lobby]))) =
       [BulkDelete ''300'' (Finite 5), ChannelSend ''300'' (Cleared (Finite 5))]
   \<and> split_spaces (trim (drop (length ''!'')
         (m_content (say ''42'' False ''!clear 9007199254740993''))))
       = [''clear'', ''9007199254740993'']
   \<and> read_integer ''9007199254740993'' = Some 9007199254740993
   \<and> trace (snd (on_message sample_conf calm (say ''42'' False ''!clear 9007199254740993'')
         (start [lobby]))) =
       [BulkDelete ''300'' (Finite 100), ChannelSend ''300'' (Cleared (Finite 9007199254740992))]"
proof -
  let ?z = "say ''42'' False ''!clear 0''"
  let ?b = "say ''42'' False ''!clear 9007199254740993''"
  have al: "allow sample_conf (author_id ?z) (member_manage ?z)"
    "allow sample_conf (author_id ?b) (member_manage ?b)"
    by (simp_all add: allow_def isAdmin_def sample_conf_def say_def)
  have sp: "split_spaces (trim (drop (length ''!'') (m_content ?z))) = [''clear'', ''0'']"
    "split_spaces (trim (drop (length ''!'') (m_content ?b))) = [''clear'', ''9007199254740993'']"
    by (simp_all add: say_def split_spaces_def trim_def ws1_def ws2_def ws3_def)
  have pi: "read_integer ''0'' = Some 0"
    "read_integer ''9007199254740993'' = Some 9007199254740993"
    by (simp_all add: read_integer_def read_sign_def read_radix_def ws1_def ws2_def ws3_def
        is_digit_of_def digit_value_def digits_value_def)
  have lc: "toLowerCase calm ''clear'' = ''clear''"
    by (simp add: calm_def failing_def lower_char_def)
  have nd: "nearest_double calm = to_double"
    by (simp add: calm_def failing_def)
  have am: "clear_amount calm [''0''] = Finite 5"
    "clear_amount calm [''9007199254740993''] = Finite 9007199254740992"
    by (simp_all add: clear_amount_def parseInt_def pi nd to_double_example)
  have run: "on_message sample_conf calm ?z (start [lobby]) = clear_cmd calm ?z [''0''] (start [lobby])"
    "on_message sample_conf calm ?b (start [lobby])
      = clear_cmd calm ?b [''9007199254740993''] (start [lobby])"
    using al sp lc
    by (simp_all add: on_message_def Let_def sample_conf_def say_def startsWith_def)
  have ch: "m_channel ?z = ''300''" "m_channel ?b = ''300''" "trace (start [lobby]) = []"
    by (simp_all add: say_def start_def)
  from al sp pi show ?thesis
    by (simp add: run clear_cmd_trace am ch)
qed

end
